theory Spec2Isabelle
  imports Main "HOL-Library.AList"
begin

section \<open>simpleforce: a REST client for generic business records\<close>

text \<open>
  The repository holds two generations of one client.  The later one (the first unnamed
  source file: methods \<open>request\<close>, \<open>makeURL\<close>, \<open>Query\<close>, \<open>CreateSObject\<close>, ...) is embedded in
  full.  Of the earlier one (\<open>force.go\<close>) the constructor and \<open>makeURL\<close> are embedded, with the
  suffix \<open>_v1\<close>.  Go's standard library (HTTP transport, JSON, file system) is not part of the
  repository: what the client asks of it is a parameter of the model.
\<close>

subsection \<open>Dynamic values and errors\<close>

datatype jvalue =
    JNull
  | JBool bool
  | JNumber int
  | JString string
  | JArray "jvalue list"
  | JObject "(string \<times> jvalue) list"

text \<open>
  Go's \<open>error\<close> values.  \<open>ErrFailure\<close> is the package's sentinel, its generic failure;
  \<open>SalesforceError\<close> is the error built from a rejected response with a structured body
  (the status code, the code and the message of the body); \<open>External\<close> stands for an error
  made by the standard library (transport, JSON, file system), named by its message.  A
  value of Go's type \<open>error\<close> is an \<open>error option\<close>: nil is \<open>None\<close>.
\<close>

datatype error =
    ErrFailure
  | SalesforceError int string string
  | External string

text \<open>A call either returns or panics (a nil pointer dereference).\<close>

datatype 'a outcome = Return 'a | Panic

subsection \<open>HTTP messages\<close>

text \<open>
  A response body is a stream, and reading consumes it.  Its state is the bytes that can
  still be read, followed by the end of the stream (\<open>None\<close>) or by a read error.
  \<open>ReadAll\<close> is \<open>io.ReadAll\<close>: it returns the bytes left, or the read error, and the stream
  as the read leaves it, with no byte left.  \<open>NewBuffer\<close> is
  \<open>io.NopCloser(bytes.NewBuffer(b))\<close>, a fresh stream over bytes held in memory.
\<close>

datatype body = BodyStream string "error option"

fun ReadAll :: "body \<Rightarrow> (error + string) \<times> body" where
  "ReadAll (BodyStream bs None) = (Inr bs, BodyStream [] None)"
| "ReadAll (BodyStream bs (Some e)) = (Inl e, BodyStream [] (Some e))"

definition NewBuffer :: "string \<Rightarrow> body" where
  "NewBuffer bs = BodyStream bs None"

text \<open>
  \<open>http.Header\<close> is a map from a canonical key to its values.  \<open>Get\<close> returns the first value
  or the empty string, \<open>Set\<close> replaces the values by one.  The keys this program passes
  (\<open>Content-Type\<close>, \<open>Accept\<close>) are already in canonical form.
\<close>

type_synonym Header = "string \<rightharpoonup> string list"

definition Header_Get :: "Header \<Rightarrow> string \<Rightarrow> string" where
  "Header_Get hdr key = (case hdr key of None \<Rightarrow> [] | Some [] \<Rightarrow> [] | Some (v # _) \<Rightarrow> v)"

definition Header_Set :: "Header \<Rightarrow> string \<Rightarrow> string \<Rightarrow> Header" where
  "Header_Set hdr key v = hdr(key \<mapsto> [v])"

record http_request =
  Method :: string
  URL :: string
  ReqBody :: "string option"
  ReqHeader :: Header

record http_response =
  StatusCode :: int
  Body :: body

subsection \<open>The world outside the client\<close>

text \<open>
  What a call does to the outside is kept in a \<open>world\<close>: the trace of requests handed to the
  transport and of files created, in order, and the contents of the file system.
\<close>

datatype event = Sent http_request | Created string

record world =
  events :: "event list"
  files :: "string \<rightharpoonup> string"

text \<open>
  The injected transport (\<open>http.Client.Do\<close>): from what happened so far and the request to a
  transport error or a response.
\<close>

type_synonym transport = "event list \<Rightarrow> http_request \<Rightarrow> error + http_response"

subsection \<open>The generic record\<close>

text \<open>
  Modelled from the spec: the type \<open>SObject\<close> and its methods \<open>Type\<close>, \<open>ID\<close>, \<open>SetID\<close> and
  \<open>makeCopy\<close> are not among the source files.  Sections 3 and 4.1 of the specification give
  a record a type name and a bag of fields; the identifier is stored as an ordinary field
  under a reserved key and read back with a best-effort cast to a string.
\<close>

record SObject =
  sobj_type :: string
  sobj_fields :: "(string \<times> jvalue) list"

text \<open>Modelled from the spec: the reserved key of the identifier field (section 4.1).\<close>

definition sobjectIDKey :: string where
  "sobjectIDKey = ''Id''"

text \<open>Modelled from the spec: \<open>type()\<close> reads the schema name (section 4.1).\<close>

definition Type :: "SObject \<Rightarrow> string" where
  "Type s = sobj_type s"

text \<open>
  Modelled from the spec: \<open>id()\<close> reads the identifier field; a missing field or a value
  that is not a string reads as the empty string (section 4.1).
\<close>

definition ID :: "SObject \<Rightarrow> string" where
  "ID s = (case map_of (sobj_fields s) sobjectIDKey of Some (JString v) \<Rightarrow> v | _ \<Rightarrow> [])"

text \<open>Modelled from the spec: \<open>set-id(value)\<close> stores the identifier field (section 4.1).\<close>

definition SetID :: "SObject \<Rightarrow> string \<Rightarrow> SObject" where
  "SetID s v = s\<lparr>sobj_fields := AList.update sobjectIDKey (JString v) (sobj_fields s)\<rparr>"

text \<open>
  Modelled from the spec: \<open>redacted-copy(excluded-field-names)\<close> returns a new value
  containing all fields except those whose name is in the exclusion set (case-sensitive
  exact match) and does not mutate the receiver (section 4.1).  The method has a pointer
  receiver: the model returns the copy together with the receiver as the call leaves it.
\<close>

definition makeCopy :: "SObject \<Rightarrow> string list \<Rightarrow> (string \<times> jvalue) list \<times> SObject" where
  "makeCopy s blacklistedFields =
     (filter (\<lambda>(k, v). k \<notin> set blacklistedFields) (sobj_fields s), s)"

type_synonym SObjectMeta = "(string \<times> jvalue) list"

record QueryResult =
  TotalSize :: int
  Done :: bool
  NextRecordsURL :: string
  Records :: "SObject list"

record createSObjectResponse =
  res_ID :: string
  res_Success :: bool

subsection \<open>What the client asks of the standard library\<close>

text \<open>
  \<^item> \<open>NewRequest_err method url\<close>: the error of \<open>http.NewRequest\<close>, if any (the URL does not
    parse);
  \<^item> \<open>Marshal\<close>: \<open>json.Marshal\<close> of an outbound payload;
  \<^item> \<open>Decode_*\<close>: \<open>json.NewDecoder(body).Decode\<close> into each target type; a decoded
    \<open>*createSObjectResponse\<close> may be nil (JSON \<open>null\<close>), and decoding into an existing record
    returns the record as the decoder leaves it;
  \<^item> \<open>Unmarshal_error\<close>: the code and message of a structured error body, if it has them;
  \<^item> \<open>Create_err files path\<close>: the error of \<open>os.Create\<close>, if any.
\<close>

record env =
  NewRequest_err :: "string \<Rightarrow> string \<Rightarrow> error option"
  Marshal :: "(string \<times> jvalue) list \<Rightarrow> error + string"
  Decode_createSObjectResponse :: "body \<Rightarrow> error + createSObjectResponse option"
  Decode_SObject :: "body \<Rightarrow> SObject \<Rightarrow> error option \<times> SObject"
  Decode_QueryResult :: "body \<Rightarrow> error + QueryResult"
  Decode_SObjectMeta :: "body \<Rightarrow> error + SObjectMeta"
  Unmarshal_error :: "string \<Rightarrow> (string \<times> string) option"
  Create_err :: "(string \<rightharpoonup> string) \<Rightarrow> string \<Rightarrow> error option"

subsection \<open>Strings and URL escaping\<close>

definition HasSuffix :: "string \<Rightarrow> string \<Rightarrow> bool" where
  "HasSuffix s suffix =
     (length suffix \<le> length s \<and> drop (length s - length suffix) s = suffix)"

definition TrimSuffix :: "string \<Rightarrow> string \<Rightarrow> string" where
  "TrimSuffix s suffix =
     (if HasSuffix s suffix then take (length s - length suffix) s else s)"

text \<open>
  \<open>url.PathEscape\<close>: Go's \<open>shouldEscape\<close> in the mode \<open>encodePathSegment\<close>.  Letters, digits
  and \<open>- _ . ~\<close> are kept; of the reserved characters \<open>$ & + , / : ; = ? @\<close> only
  \<open>/ ; , ?\<close> are escaped; every other byte is escaped as \<open>%XX\<close> in upper-case hexadecimal.
\<close>

definition shouldEscape :: "char \<Rightarrow> bool" where
  "shouldEscape c =
     (let n = (of_char c :: nat) in
      if (97 \<le> n \<and> n \<le> 122) \<or> (65 \<le> n \<and> n \<le> 90) \<or> (48 \<le> n \<and> n \<le> 57) then False
      else if c \<in> set ''-_.~'' then False
      else if c \<in> set ''$&+,/:;=?@'' then c \<in> set ''/;,?''
      else True)"

definition upperhex :: string where
  "upperhex = ''0123456789ABCDEF''"

definition escape_byte :: "char \<Rightarrow> string" where
  "escape_byte c =
     (if shouldEscape c
      then [CHR ''%'', upperhex ! ((of_char c :: nat) div 16), upperhex ! ((of_char c :: nat) mod 16)]
      else [c])"

definition PathEscape :: "string \<Rightarrow> string" where
  "PathEscape s = concat (map escape_byte s)"

subsection \<open>The later client\<close>

text \<open>
  Every method of the client has a pointer receiver \<open>h *HTTPClient\<close> and so could assign to
  the client's fields.  Each method of the model therefore returns, as the last component
  of its result, the client as the call leaves it, and a method that calls another goes
  on with the client that call returned.
\<close>

record HTTPClient =
  httpClient :: transport
  baseURL :: string
  apiVersion :: string

definition NewHTTPClient :: "transport \<Rightarrow> string \<Rightarrow> string \<Rightarrow> HTTPClient" where
  "NewHTTPClient hc url ver =
     \<lparr>httpClient = hc, baseURL = TrimSuffix url ''/'', apiVersion = ver\<rparr>"

definition makeURL :: "HTTPClient \<Rightarrow> string \<Rightarrow> string \<times> HTTPClient" where
  "makeURL h url = (baseURL h @ ''/services/data/'' @ apiVersion h @ ''/'' @ url, h)"

text \<open>
  Modelled from the spec: \<open>parseSalesforceError\<close> is not among the source files.  Section 7:
  the error of a rejected response carries the HTTP status code and the parsed payload
  (code and message) when the server provides a structured body, and falls back to the
  generic failure when the body is absent or cannot be parsed.  Its Go result type is
  \<open>error\<close>.
\<close>

definition parseSalesforceError :: "env \<Rightarrow> int \<Rightarrow> string \<Rightarrow> error option" where
  "parseSalesforceError env statusCode b =
     (case Unmarshal_error env b of
        Some (code, msg) \<Rightarrow> Some (SalesforceError statusCode code msg)
      | None \<Rightarrow> Some ErrFailure)"

text \<open>
  \<open>request\<close> returns a pair \<open>(*http.Response, error)\<close> in one of three shapes:
  \<open>(nil, err)\<close>, \<open>(res, err)\<close> with both set for a rejected response, \<open>(res, nil)\<close>.
\<close>

datatype request_result =
    Failed error
  | Rejected http_response error
  | Succeeded http_response

text \<open>
  The headers a request carries: nil headers become an empty header map, and a header map
  with no (or an empty) \<open>Content-Type\<close> gets \<open>application/json\<close>.
\<close>

definition request_headers :: "Header option \<Rightarrow> Header" where
  "request_headers headers =
     (let headers1 = (case headers of None \<Rightarrow> Map.empty | Some hdr \<Rightarrow> hdr)
      in if length (Header_Get headers1 ''Content-Type'') = 0
         then Header_Set headers1 ''Content-Type'' ''application/json''
         else headers1)"

text \<open>
  On a status code outside 200-299 \<open>request\<close> reads the body, which leaves the response
  with a consumed body, parses the error, and then sets the response's body to a fresh
  stream over the bytes read.
\<close>

definition request ::
  "env \<Rightarrow> HTTPClient \<Rightarrow> string \<Rightarrow> string \<Rightarrow> string option \<Rightarrow> Header option \<Rightarrow> world
     \<Rightarrow> request_result \<times> world \<times> HTTPClient" where
  "request env h method url reqBody headers w =
     (case NewRequest_err env method url of
        Some err \<Rightarrow> (Failed err, w, h)
      | None \<Rightarrow>
          let req = \<lparr>Method = method, URL = url, ReqBody = reqBody,
                     ReqHeader = request_headers headers\<rparr>;
              w1 = w\<lparr>events := events w @ [Sent req]\<rparr>
          in (case httpClient h (events w) req of
                Inl err \<Rightarrow> (Failed err, w1, h)
              | Inr res \<Rightarrow>
                  if StatusCode res < 200 \<or> StatusCode res \<ge> 300
                  then (case ReadAll (Body res) of
                          (Inl err, consumed) \<Rightarrow> (Failed err, w1, h)
                        | (Inr b, consumed) \<Rightarrow>
                            let res1 = res\<lparr>Body := consumed\<rparr>;
                                err = parseSalesforceError env (StatusCode res1) b;
                                res2 = res1\<lparr>Body := NewBuffer b\<rparr>
                            in (case err of
                                  Some e \<Rightarrow> (Rejected res2 e, w1, h)
                                | None \<Rightarrow> (Succeeded res2, w1, h)))
                  else (Succeeded res, w1, h)))"

text \<open>
  The operations.  Each takes the client, its arguments and the world, and returns its Go
  result, the record as the call leaves it (records are passed by pointer), the world
  after the call and the client after the call.
\<close>

definition Query ::
  "env \<Rightarrow> HTTPClient \<Rightarrow> string \<Rightarrow> string \<Rightarrow> world
     \<Rightarrow> (error + QueryResult) \<times> world \<times> HTTPClient" where
  "Query env h query nextRecordsURL w =
     (let path = (if length nextRecordsURL > 0 then nextRecordsURL
                  else ''/services/data/'' @ apiVersion h @ ''/query?q='' @ PathEscape query);
          url = baseURL h @ path
      in (case request env h ''GET'' url None None w of
            (Failed err, w1, h1) \<Rightarrow> (Inl err, w1, h1)
          | (Rejected res err, w1, h1) \<Rightarrow> (Inl err, w1, h1)
          | (Succeeded res, w1, h1) \<Rightarrow>
              (case Decode_QueryResult env (Body res) of
                 Inl err \<Rightarrow> (Inl err, w1, h1)
               | Inr result \<Rightarrow> (Inr result, w1, h1))))"

definition DescribeSObject ::
  "env \<Rightarrow> HTTPClient \<Rightarrow> SObject \<Rightarrow> world
     \<Rightarrow> (error + SObjectMeta) \<times> SObject \<times> world \<times> HTTPClient" where
  "DescribeSObject env h sobj w =
     (if Type sobj = [] then (Inl ErrFailure, sobj, w, h)
      else (case makeURL h (''sobjects/'' @ Type sobj @ ''/describe'') of
        (url, h1) \<Rightarrow>
          (case request env h1 ''GET'' url None None w of
             (Failed err, w1, h2) \<Rightarrow> (Inl err, sobj, w1, h2)
           | (Rejected res err, w1, h2) \<Rightarrow> (Inl err, sobj, w1, h2)
           | (Succeeded res, w1, h2) \<Rightarrow>
               (case Decode_SObjectMeta env (Body res) of
                  Inl err \<Rightarrow> (Inl err, sobj, w1, h2)
                | Inr meta \<Rightarrow> (Inr meta, sobj, w1, h2)))))"

definition CreateSObject ::
  "env \<Rightarrow> HTTPClient \<Rightarrow> SObject \<Rightarrow> string list \<Rightarrow> world
     \<Rightarrow> error option outcome \<times> SObject \<times> world \<times> HTTPClient" where
  "CreateSObject env h sobj blacklistedFields w =
     (if Type sobj = [] then (Return (Some ErrFailure), sobj, w, h)
      else (case makeCopy sobj blacklistedFields of
        (reqObj, sobj1) \<Rightarrow>
          (case Marshal env reqObj of
             Inl err \<Rightarrow> (Return (Some err), sobj1, w, h)
           | Inr reqData \<Rightarrow>
               (case makeURL h (''sobjects/'' @ Type sobj1 @ ''/'') of
                 (url, h1) \<Rightarrow>
                   (case request env h1 ''POST'' url (Some reqData) None w of
                      (Failed err, w1, h2) \<Rightarrow> (Return (Some err), sobj1, w1, h2)
                    | (Rejected res err, w1, h2) \<Rightarrow> (Return (Some err), sobj1, w1, h2)
                    | (Succeeded res, w1, h2) \<Rightarrow>
                        (case Decode_createSObjectResponse env (Body res) of
                           Inl err \<Rightarrow> (Return (Some err), sobj1, w1, h2)
                         | Inr None \<Rightarrow> (Panic, sobj1, w1, h2)
                         | Inr (Some resData) \<Rightarrow>
                             if \<not> res_Success resData \<or> res_ID resData = []
                             then (Return (Some ErrFailure), sobj1, w1, h2)
                             else (Return None, SetID sobj1 (res_ID resData), w1, h2)))))))"

definition GetSObject ::
  "env \<Rightarrow> HTTPClient \<Rightarrow> SObject \<Rightarrow> world
     \<Rightarrow> error option \<times> SObject \<times> world \<times> HTTPClient" where
  "GetSObject env h sobj w =
     (if length (Type sobj) = 0 then (Some ErrFailure, sobj, w, h)
      else if length (ID sobj) = 0 then (Some ErrFailure, sobj, w, h)
      else (case makeURL h (''sobjects/'' @ Type sobj @ ''/'' @ ID sobj) of
        (url, h1) \<Rightarrow>
          (case request env h1 ''GET'' url None None w of
             (Failed err, w1, h2) \<Rightarrow> (Some err, sobj, w1, h2)
           | (Rejected res err, w1, h2) \<Rightarrow> (Some err, sobj, w1, h2)
           | (Succeeded res, w1, h2) \<Rightarrow>
               (case Decode_SObject env (Body res) sobj of
                  (Some err, sobj1) \<Rightarrow> (Some err, sobj1, w1, h2)
                | (None, sobj1) \<Rightarrow> (None, sobj1, w1, h2)))))"

definition UpdateSObject ::
  "env \<Rightarrow> HTTPClient \<Rightarrow> SObject \<Rightarrow> string list \<Rightarrow> world
     \<Rightarrow> error option \<times> SObject \<times> world \<times> HTTPClient" where
  "UpdateSObject env h sobj blacklistedFields w =
     (if Type sobj = [] then (Some ErrFailure, sobj, w, h)
      else if ID sobj = [] then (Some ErrFailure, sobj, w, h)
      else (case makeCopy sobj blacklistedFields of
        (reqObj, sobj1) \<Rightarrow>
          (case Marshal env reqObj of
             Inl err \<Rightarrow> (Some err, sobj1, w, h)
           | Inr reqData \<Rightarrow>
               (case makeURL h (''sobjects/'' @ Type sobj1 @ ''/'' @ ID sobj1) of
                 (url, h1) \<Rightarrow>
                   (case request env h1 ''PATCH'' url (Some reqData) None w of
                      (Failed err, w1, h2) \<Rightarrow> (Some err, sobj1, w1, h2)
                    | (Rejected res err, w1, h2) \<Rightarrow> (Some err, sobj1, w1, h2)
                    | (Succeeded res, w1, h2) \<Rightarrow> (None, sobj1, w1, h2))))))"

definition DeleteSObject ::
  "env \<Rightarrow> HTTPClient \<Rightarrow> SObject \<Rightarrow> world
     \<Rightarrow> error option \<times> SObject \<times> world \<times> HTTPClient" where
  "DeleteSObject env h sobj w =
     (if length (Type sobj) = 0 then (Some ErrFailure, sobj, w, h)
      else if length (ID sobj) = 0 then (Some ErrFailure, sobj, w, h)
      else (case makeURL h (''sobjects/'' @ Type sobj @ ''/'' @ ID sobj) of
        (url, h1) \<Rightarrow>
          (case request env h1 ''DELETE'' url None None w of
             (Failed err, w1, h2) \<Rightarrow> (Some err, sobj, w1, h2)
           | (Rejected res err, w1, h2) \<Rightarrow> (Some err, sobj, w1, h2)
           | (Succeeded res, w1, h2) \<Rightarrow> (None, sobj, w1, h2))))"

text \<open>The headers \<open>DownloadFile\<close> and \<open>DescribeGlobal\<close> build before their request.\<close>

definition json_headers :: Header where
  "json_headers =
     Header_Set (Header_Set Map.empty ''Content-Type'' ''application/json; charset=UTF-8'')
       ''Accept'' ''application/json''"

text \<open>
  \<open>DownloadFile\<close>: \<open>os.Create\<close> creates the file or truncates it; \<open>io.Copy\<close> then writes the
  bytes the body delivers and returns the body's read error, if it ends in one.
\<close>

definition DownloadFile ::
  "env \<Rightarrow> HTTPClient \<Rightarrow> string \<Rightarrow> string \<Rightarrow> world
     \<Rightarrow> error option \<times> world \<times> HTTPClient" where
  "DownloadFile env h contentVersionID filepath w =
     (let path = ''/services/data/'' @ apiVersion h @ ''/sobjects/ContentVersion/''
                   @ contentVersionID @ ''/VersionData'';
          url = baseURL h @ path
      in (case request env h ''GET'' url None (Some json_headers) w of
            (Failed err, w1, h1) \<Rightarrow> (Some err, w1, h1)
          | (Rejected res err, w1, h1) \<Rightarrow> (Some err, w1, h1)
          | (Succeeded res, w1, h1) \<Rightarrow>
              (case Create_err env (files w1) filepath of
                 Some err \<Rightarrow> (Some err, w1, h1)
               | None \<Rightarrow>
                   (case Body res of
                      BodyStream bs e \<Rightarrow>
                        (e, w1\<lparr>events := events w1 @ [Created filepath],
                                files := (files w1)(filepath \<mapsto> bs)\<rparr>, h1)))))"

definition DescribeGlobal ::
  "env \<Rightarrow> HTTPClient \<Rightarrow> world \<Rightarrow> (error + SObjectMeta) \<times> world \<times> HTTPClient" where
  "DescribeGlobal env h w =
     (let path = ''/services/data/'' @ apiVersion h @ ''/sobjects'';
          url = baseURL h @ path
      in (case request env h ''GET'' url None (Some json_headers) w of
            (Failed err, w1, h1) \<Rightarrow> (Inl err, w1, h1)
          | (Rejected res err, w1, h1) \<Rightarrow> (Inl err, w1, h1)
          | (Succeeded res, w1, h1) \<Rightarrow>
              (case Decode_SObjectMeta env (Body res) of
                 Inl err \<Rightarrow> (Inl err, w1, h1)
               | Inr meta \<Rightarrow> (Inr meta, w1, h1))))"

text \<open>
  A program using the client is a sequence of calls on one client.  \<open>exec\<close> runs one call
  on the client and the world it is given and returns the client and the world the call
  leaves behind; \<open>run\<close> runs a sequence, each call on the client the one before it left.
\<close>

datatype call =
    Call_Query string string
  | Call_DescribeSObject SObject
  | Call_CreateSObject SObject "string list"
  | Call_GetSObject SObject
  | Call_UpdateSObject SObject "string list"
  | Call_DeleteSObject SObject
  | Call_DescribeGlobal
  | Call_DownloadFile string string
  | Call_makeURL string
  | Call_request string string "string option" "Header option"

fun exec :: "env \<Rightarrow> call \<Rightarrow> HTTPClient \<times> world \<Rightarrow> HTTPClient \<times> world" where
  "exec env (Call_Query q n) (h, w) =
     (case Query env h q n w of (r, w1, h1) \<Rightarrow> (h1, w1))"
| "exec env (Call_DescribeSObject s) (h, w) =
     (case DescribeSObject env h s w of (r, s1, w1, h1) \<Rightarrow> (h1, w1))"
| "exec env (Call_CreateSObject s bl) (h, w) =
     (case CreateSObject env h s bl w of (r, s1, w1, h1) \<Rightarrow> (h1, w1))"
| "exec env (Call_GetSObject s) (h, w) =
     (case GetSObject env h s w of (r, s1, w1, h1) \<Rightarrow> (h1, w1))"
| "exec env (Call_UpdateSObject s bl) (h, w) =
     (case UpdateSObject env h s bl w of (r, s1, w1, h1) \<Rightarrow> (h1, w1))"
| "exec env (Call_DeleteSObject s) (h, w) =
     (case DeleteSObject env h s w of (r, s1, w1, h1) \<Rightarrow> (h1, w1))"
| "exec env Call_DescribeGlobal (h, w) =
     (case DescribeGlobal env h w of (r, w1, h1) \<Rightarrow> (h1, w1))"
| "exec env (Call_DownloadFile i p) (h, w) =
     (case DownloadFile env h i p w of (r, w1, h1) \<Rightarrow> (h1, w1))"
| "exec env (Call_makeURL u) (h, w) =
     (case makeURL h u of (r, h1) \<Rightarrow> (h1, w))"
| "exec env (Call_request m u b hs) (h, w) =
     (case request env h m u b hs w of (r, w1, h1) \<Rightarrow> (h1, w1))"

fun run :: "env \<Rightarrow> call list \<Rightarrow> HTTPClient \<times> world \<Rightarrow> HTTPClient \<times> world" where
  "run env [] st = st"
| "run env (c # cs) st = run env cs (exec env c st)"

subsection \<open>The earlier client\<close>

text \<open>
  \<open>force.go\<close>: the constructor appends the separator to the base URL when it is missing, and
  \<open>makeURL\<close> first overwrites the client's API version with every \<open>v\<close> removed
  (\<open>strings.Replace(h.apiVersion, "v", "", -1)\<close>), then formats the URL from the instance URL.
  The method has a pointer receiver and assigns to it: the model returns the URL and the
  client after the call.
\<close>

record HTTPClient_v1 =
  httpClient_v1 :: transport
  baseURL_v1 :: string
  apiVersion_v1 :: string
  instanceURL_v1 :: string

definition NewHTTPClient_v1 :: "transport \<Rightarrow> string \<Rightarrow> string \<Rightarrow> HTTPClient_v1" where
  "NewHTTPClient_v1 hc url ver =
     (let client = \<lparr>httpClient_v1 = hc, baseURL_v1 = url, apiVersion_v1 = ver, instanceURL_v1 = []\<rparr>
      in if \<not> HasSuffix (baseURL_v1 client) ''/''
         then client\<lparr>baseURL_v1 := baseURL_v1 client @ ''/''\<rparr>
         else client)"

definition makeURL_v1 :: "HTTPClient_v1 \<Rightarrow> string \<Rightarrow> string \<times> HTTPClient_v1" where
  "makeURL_v1 h req =
     (let h1 = h\<lparr>apiVersion_v1 := filter (\<lambda>c. c \<noteq> CHR ''v'') (apiVersion_v1 h)\<rparr>;
          retURL = instanceURL_v1 h1 @ ''/services/data/v'' @ apiVersion_v1 h1 @ ''/'' @ req
      in (retURL, h1))"

subsection \<open>Reading a request URL\<close>

text \<open>
  What the receiving side reads from a request URL, as the repository's tests do with
  \<open>r.URL.Query().Get("q")\<close> and \<open>r.URL.Query().Has("q")\<close>.  The raw query is the text after the
  first \<open>?\<close>, the fragment after \<open>#\<close> cut off.  It is split at \<open>&\<close>; a piece that is empty or
  holds a \<open>;\<close> is skipped; the rest is cut at its first \<open>=\<close> into a key and a value, each
  unescaped as a query component (\<open>%XX\<close> is a byte, \<open>+\<close> is a space); a piece with a malformed
  escape is skipped.
\<close>

definition cut_before :: "char \<Rightarrow> string \<Rightarrow> string" where
  "cut_before sep s = takeWhile (\<lambda>c. c \<noteq> sep) s"

definition cut_after :: "char \<Rightarrow> string \<Rightarrow> string" where
  "cut_after sep s = drop 1 (dropWhile (\<lambda>c. c \<noteq> sep) s)"

definition RawQuery :: "string \<Rightarrow> string" where
  "RawQuery url = cut_after (CHR ''?'') (cut_before (CHR ''#'') url)"

definition ishex :: "char \<Rightarrow> bool" where
  "ishex c =
     (let n = (of_char c :: nat)
      in (48 \<le> n \<and> n \<le> 57) \<or> (97 \<le> n \<and> n \<le> 102) \<or> (65 \<le> n \<and> n \<le> 70))"

definition unhex :: "char \<Rightarrow> nat" where
  "unhex c =
     (let n = (of_char c :: nat)
      in if 48 \<le> n \<and> n \<le> 57 then n - 48
         else if 97 \<le> n \<and> n \<le> 102 then n - 97 + 10
         else if 65 \<le> n \<and> n \<le> 70 then n - 65 + 10
         else 0)"

fun QueryUnescape :: "string \<Rightarrow> string option" where
  "QueryUnescape [] = Some []"
| "QueryUnescape (c # cs) =
     (if c = CHR ''%'' then
        (case cs of
           a # b # rest \<Rightarrow>
             if ishex a \<and> ishex b
             then map_option ((#) (char_of (unhex a * 16 + unhex b))) (QueryUnescape rest)
             else None
         | _ \<Rightarrow> None)
      else if c = CHR ''+'' then map_option ((#) (CHR '' '')) (QueryUnescape cs)
      else map_option ((#) c) (QueryUnescape cs))"

fun split_pieces :: "char \<Rightarrow> string \<Rightarrow> string list" where
  "split_pieces sep [] = [[]]"
| "split_pieces sep (c # cs) =
     (if c = sep then [] # split_pieces sep cs
      else (case split_pieces sep cs of
              [] \<Rightarrow> [[c]]
            | p # ps \<Rightarrow> (c # p) # ps))"

definition parse_piece :: "string \<Rightarrow> (string \<times> string) list" where
  "parse_piece key =
     (if CHR '';'' \<in> set key then []
      else if key = [] then []
      else (case QueryUnescape (cut_before (CHR ''='') key) of
              None \<Rightarrow> []
            | Some k \<Rightarrow>
                (case QueryUnescape (cut_after (CHR ''='') key) of
                   None \<Rightarrow> []
                 | Some v \<Rightarrow> [(k, v)])))"

definition parseQuery :: "string \<Rightarrow> (string \<times> string) list" where
  "parseQuery query = concat (map parse_piece (split_pieces (CHR ''&'') query))"

definition Values_Get :: "(string \<times> string) list \<Rightarrow> string \<Rightarrow> string" where
  "Values_Get vs key = (case map_of vs key of None \<Rightarrow> [] | Some v \<Rightarrow> v)"

definition Values_Has :: "(string \<times> string) list \<Rightarrow> string \<Rightarrow> bool" where
  "Values_Has vs key = (map_of vs key \<noteq> None)"

subsection \<open>Observations and example surroundings\<close>

definition sent :: "world \<Rightarrow> http_request list" where
  "sent w = concat (map (\<lambda>e. case e of Sent r \<Rightarrow> [r] | Created p \<Rightarrow> []) (events w))"

definition created :: "world \<Rightarrow> string list" where
  "created w = concat (map (\<lambda>e. case e of Sent r \<Rightarrow> [] | Created p \<Rightarrow> [p]) (events w))"

definition sent_urls :: "world \<Rightarrow> string list" where
  "sent_urls w = map URL (sent w)"

definition sent_header :: "world \<Rightarrow> string \<Rightarrow> string list option list" where
  "sent_header w key = map (\<lambda>r. ReqHeader r key) (sent w)"

definition world0 :: world where
  "world0 = \<lparr>events = [], files = Map.empty\<rparr>"

text \<open>A transport that answers every request with one status code and one body.\<close>

definition respond :: "int \<Rightarrow> body \<Rightarrow> transport" where
  "respond code b = (\<lambda>evs req. Inr \<lparr>StatusCode = code, Body = b\<rparr>)"

text \<open>
  A standard library for the examples: every URL parses, every payload marshals to
  \<open>{}\<close>, a create response is read off three example bodies, one example body is a
  structured error, and every file can be created.
\<close>

definition example_env :: env where
  "example_env =
     \<lparr>NewRequest_err = (\<lambda>m u. None),
      Marshal = (\<lambda>obj. Inr ''{}''),
      Decode_createSObjectResponse =
        (\<lambda>b. case b of BodyStream bs e \<Rightarrow>
           if bs = ''created X'' then Inr (Some \<lparr>res_ID = ''X'', res_Success = True\<rparr>)
           else if bs = ''refused'' then Inr (Some \<lparr>res_ID = [], res_Success = False\<rparr>)
           else if bs = ''null'' then Inr None
           else Inl (External ''invalid character'')),
      Decode_SObject = (\<lambda>b s. (None, s)),
      Decode_QueryResult =
        (\<lambda>b. Inr \<lparr>TotalSize = 0, Done = True, NextRecordsURL = [], Records = []\<rparr>),
      Decode_SObjectMeta = (\<lambda>b. Inr []),
      Unmarshal_error =
        (\<lambda>b. if b = ''NOT_FOUND gone'' then Some (''NOT_FOUND'', ''gone'') else None),
      Create_err = (\<lambda>fs p. None)\<rparr>"

definition example_record :: SObject where
  "example_record =
     \<lparr>sobj_type = ''Case'',
      sobj_fields = [(''Id'', JString ''object1''), (''OwnerId'', JString ''owner1''),
                     (''Foo'', JString ''bar'')]\<rparr>"

text \<open>Example clients and records.\<close>

definition client_answering :: "int \<Rightarrow> string \<Rightarrow> HTTPClient" where
  "client_answering code bs =
     NewHTTPClient (respond code (BodyStream bs None)) ''https://example.com/'' ''v43.0''"

definition untyped_record :: SObject where
  "untyped_record = \<lparr>sobj_type = [], sobj_fields = [(''Id'', JString ''object1'')]\<rparr>"

definition unsaved_record :: SObject where
  "unsaved_record = \<lparr>sobj_type = ''Case'', sobj_fields = [(''Foo'', JString ''bar'')]\<rparr>"

definition accept_only :: Header where
  "accept_only = Header_Set Map.empty ''Accept'' ''application/json''"

section \<open>Properties\<close>

subsection \<open>Strings, records and headers\<close>

lemma HasSuffix_slash: "HasSuffix s ''/'' \<longleftrightarrow> (\<exists>b. s = b @ ''/'')"
proof
  assume "HasSuffix s ''/''"
  then have "length s \<ge> 1" and "drop (length s - 1) s = ''/''"
    by (auto simp: HasSuffix_def)
  then have "s = take (length s - 1) s @ ''/''"
    by (metis append_take_drop_id)
  then show "\<exists>b. s = b @ ''/''" ..
next
  assume "\<exists>b. s = b @ ''/''"
  then show "HasSuffix s ''/''"
    by (auto simp: HasSuffix_def)
qed

lemma TrimSuffix_slash_append: "TrimSuffix (b @ ''/'') ''/'' = b"
  by (simp add: TrimSuffix_def HasSuffix_def)

lemma TrimSuffix_slash_none: "\<not> HasSuffix b ''/'' \<Longrightarrow> TrimSuffix b ''/'' = b"
  by (simp add: TrimSuffix_def)

lemma client_answering_fields:
  "httpClient (client_answering code bs) = respond code (BodyStream bs None)"
  "baseURL (client_answering code bs) = ''https://example.com''"
  "apiVersion (client_answering code bs) = ''v43.0''"
  by (simp_all add: client_answering_def NewHTTPClient_def TrimSuffix_def HasSuffix_def)

lemma ID_SetID: "ID (SetID s v) = v"
  by (simp add: ID_def SetID_def update_conv')

lemma Type_SetID: "Type (SetID s v) = Type s"
  by (simp add: Type_def SetID_def)

lemma example_record_Type_ID: "Type example_record = ''Case''" "ID example_record = ''object1''"
  by (simp_all add: example_record_def Type_def ID_def sobjectIDKey_def)

lemma map_of_filter_keys:
  "map_of (filter (\<lambda>(k, v). k \<notin> set ex) fs) k = (if k \<in> set ex then None else map_of fs k)"
  by (induction fs) auto

lemma world0_observed: "sent_urls world0 = []" "sent world0 = []" "created world0 = []"
  by (simp_all add: sent_urls_def sent_def created_def world0_def)

lemma request_headers_None: "request_headers None = [''Content-Type'' \<mapsto> [''application/json'']]"
  by (simp add: request_headers_def Header_Get_def Header_Set_def)

lemma request_headers_json: "request_headers (Some json_headers) = json_headers"
  by (simp add: request_headers_def json_headers_def Header_Get_def Header_Set_def)

subsection \<open>The request routine\<close>

lemma request_client: "snd (snd (request env h m u b hs w)) = h"
  by (simp add: request_def Let_def parseSalesforceError_def
      split: option.splits sum.splits prod.splits)

lemma request_events:
  "events (fst (snd (request env h m u b hs w))) =
     events w @ (case NewRequest_err env m u of
                   None \<Rightarrow> [Sent \<lparr>Method = m, URL = u, ReqBody = b,
                                   ReqHeader = request_headers hs\<rparr>]
                 | Some e \<Rightarrow> [])"
  by (simp add: request_def Let_def parseSalesforceError_def
      split: option.splits sum.splits prod.splits)

lemma request_files: "files (fst (snd (request env h m u b hs w))) = files w"
  by (simp add: request_def Let_def parseSalesforceError_def
      split: option.splits sum.splits prod.splits)

lemma request_created: "created (fst (snd (request env h m u b hs w))) = created w"
  by (simp add: created_def request_events split: option.splits)

lemma request_sent_urls:
  "sent_urls (fst (snd (request env h m u b hs w))) =
     sent_urls w @ (case NewRequest_err env m u of None \<Rightarrow> [u] | Some e \<Rightarrow> [])"
  by (simp add: sent_urls_def sent_def request_events split: option.splits)

lemma request_2xx:
  assumes "NewRequest_err env m u = None"
    and "httpClient h (events w)
           \<lparr>Method = m, URL = u, ReqBody = b, ReqHeader = request_headers hs\<rparr> = Inr res"
    and "200 \<le> StatusCode res" and "StatusCode res < 300"
  shows "request env h m u b hs w =
     (Succeeded res,
      w\<lparr>events := events w @ [Sent \<lparr>Method = m, URL = u, ReqBody = b,
                                     ReqHeader = request_headers hs\<rparr>]\<rparr>,
      h)"
  using assms by (simp add: request_def Let_def)

lemma request_Succeeded_world:
  assumes "request env h m u b hs w = (Succeeded res, w1, h1)"
  shows "w1 = w\<lparr>events := events w @ [Sent \<lparr>Method = m, URL = u, ReqBody = b,
                                              ReqHeader = request_headers hs\<rparr>]\<rparr>
         \<and> NewRequest_err env m u = None
         \<and> httpClient h (events w)
              \<lparr>Method = m, URL = u, ReqBody = b, ReqHeader = request_headers hs\<rparr> = Inr res
         \<and> 200 \<le> StatusCode res \<and> StatusCode res < 300"
  using assms
  by (auto simp add: request_def Let_def parseSalesforceError_def
      split: option.splits sum.splits if_splits prod.splits)

lemma request_non2xx_fails:
  assumes "NewRequest_err env m u = None"
    and "httpClient h (events w)
           \<lparr>Method = m, URL = u, ReqBody = b, ReqHeader = request_headers hs\<rparr> = Inr res"
    and "StatusCode res < 200 \<or> 300 \<le> StatusCode res"
  shows "\<exists>e. fst (request env h m u b hs w) = Failed e
             \<or> (\<exists>r. fst (request env h m u b hs w) = Rejected r e)"
  using assms
  by (auto simp add: request_def Let_def parseSalesforceError_def
      split: sum.splits prod.splits option.splits)

subsection \<open>What each operation does to the world and to the client\<close>

lemma Query_world:
  "fst (snd (Query env h q n w)) =
     fst (snd (request env h ''GET''
            (baseURL h @ (if length n > 0 then n
                          else ''/services/data/'' @ apiVersion h @ ''/query?q='' @ PathEscape q))
            None None w))"
  by (simp add: Query_def Let_def split: prod.splits request_result.splits sum.splits)

lemma DescribeSObject_world:
  "fst (snd (snd (DescribeSObject env h s w))) =
     (if Type s = [] then w
      else fst (snd (request env h ''GET'' (fst (makeURL h (''sobjects/'' @ Type s @ ''/describe'')))
                  None None w)))"
  by (simp add: DescribeSObject_def makeURL_def
      split: prod.splits request_result.splits sum.splits)

lemma CreateSObject_world:
  "fst (snd (snd (CreateSObject env h s bl w))) =
     (if Type s = [] then w
      else case Marshal env (fst (makeCopy s bl)) of
             Inl e \<Rightarrow> w
           | Inr d \<Rightarrow> fst (snd (request env h ''POST''
                             (fst (makeURL h (''sobjects/'' @ Type s @ ''/'')))
                             (Some d) None w)))"
  by (simp add: CreateSObject_def makeCopy_def makeURL_def
      split: prod.splits request_result.splits sum.splits option.splits)

lemma GetSObject_world:
  "fst (snd (snd (GetSObject env h s w))) =
     (if Type s = [] \<or> ID s = [] then w
      else fst (snd (request env h ''GET''
                  (fst (makeURL h (''sobjects/'' @ Type s @ ''/'' @ ID s))) None None w)))"
  by (simp add: GetSObject_def makeURL_def
      split: prod.splits request_result.splits sum.splits option.splits)

lemma UpdateSObject_world:
  "fst (snd (snd (UpdateSObject env h s bl w))) =
     (if Type s = [] \<or> ID s = [] then w
      else case Marshal env (fst (makeCopy s bl)) of
             Inl e \<Rightarrow> w
           | Inr d \<Rightarrow> fst (snd (request env h ''PATCH''
                             (fst (makeURL h (''sobjects/'' @ Type s @ ''/'' @ ID s)))
                             (Some d) None w)))"
  by (simp add: UpdateSObject_def makeCopy_def makeURL_def
      split: prod.splits request_result.splits sum.splits option.splits)

lemma DeleteSObject_world:
  "fst (snd (snd (DeleteSObject env h s w))) =
     (if Type s = [] \<or> ID s = [] then w
      else fst (snd (request env h ''DELETE''
                  (fst (makeURL h (''sobjects/'' @ Type s @ ''/'' @ ID s))) None None w)))"
  by (simp add: DeleteSObject_def makeURL_def
      split: prod.splits request_result.splits sum.splits option.splits)

lemma DescribeGlobal_world:
  "fst (snd (DescribeGlobal env h w)) =
     fst (snd (request env h ''GET''
            (baseURL h @ ''/services/data/'' @ apiVersion h @ ''/sobjects'')
            None (Some json_headers) w))"
  by (simp add: DescribeGlobal_def Let_def split: prod.splits request_result.splits sum.splits)

lemma DownloadFile_sent_urls:
  "sent_urls (fst (snd (DownloadFile env h i p w))) =
     sent_urls (fst (snd (request env h ''GET''
                       (baseURL h @ ''/services/data/'' @ apiVersion h
                          @ ''/sobjects/ContentVersion/'' @ i @ ''/VersionData'')
                       None (Some json_headers) w)))"
  by (simp add: DownloadFile_def Let_def sent_urls_def sent_def
      split: prod.splits request_result.splits sum.splits option.splits body.splits)

text \<open>
  The client each method returns.  Each proof goes through the body of its method:
  \<open>makeURL\<close> and \<open>request\<close> return the client they were given, and every other method
  returns the client its last call to one of them returned.
\<close>

lemma makeURL_client: "snd (makeURL h u) = h"
  by (simp add: makeURL_def)

lemma request_result_client:
  "request env h m u b hs w = (r, w1, h1) \<Longrightarrow> h1 = h"
  using request_client [of env h m u b hs w] by simp

lemma Query_client: "snd (snd (Query env h q n w)) = h"
  by (auto simp add: Query_def Let_def dest: request_result_client
      split: prod.splits request_result.splits sum.splits)

lemma DescribeSObject_client: "snd (snd (snd (DescribeSObject env h s w))) = h"
  by (auto simp add: DescribeSObject_def makeURL_def dest: request_result_client
      split: prod.splits request_result.splits sum.splits)

lemma CreateSObject_client: "snd (snd (snd (CreateSObject env h s bl w))) = h"
  by (auto simp add: CreateSObject_def makeURL_def dest: request_result_client
      split: prod.splits request_result.splits sum.splits option.splits)

lemma GetSObject_client: "snd (snd (snd (GetSObject env h s w))) = h"
  by (auto simp add: GetSObject_def makeURL_def dest: request_result_client
      split: prod.splits request_result.splits sum.splits option.splits)

lemma UpdateSObject_client: "snd (snd (snd (UpdateSObject env h s bl w))) = h"
  by (auto simp add: UpdateSObject_def makeURL_def dest: request_result_client
      split: prod.splits request_result.splits sum.splits option.splits)

lemma DeleteSObject_client: "snd (snd (snd (DeleteSObject env h s w))) = h"
  by (auto simp add: DeleteSObject_def makeURL_def dest: request_result_client
      split: prod.splits request_result.splits sum.splits option.splits)

lemma DescribeGlobal_client: "snd (snd (DescribeGlobal env h w)) = h"
  by (auto simp add: DescribeGlobal_def Let_def dest: request_result_client
      split: prod.splits request_result.splits sum.splits)

lemma DownloadFile_client: "snd (snd (DownloadFile env h i p w)) = h"
  by (auto simp add: DownloadFile_def Let_def dest: request_result_client
      split: prod.splits request_result.splits sum.splits option.splits body.splits)

lemma exec_client: "fst (exec env c (h, w)) = h"
proof (cases c)
  case (Call_Query q n)
  then show ?thesis
    using Query_client [of env h q n w] by (auto split: prod.splits)
next
  case (Call_DescribeSObject s)
  then show ?thesis
    using DescribeSObject_client [of env h s w] by (auto split: prod.splits)
next
  case (Call_CreateSObject s bl)
  then show ?thesis
    using CreateSObject_client [of env h s bl w] by (auto split: prod.splits)
next
  case (Call_GetSObject s)
  then show ?thesis
    using GetSObject_client [of env h s w] by (auto split: prod.splits)
next
  case (Call_UpdateSObject s bl)
  then show ?thesis
    using UpdateSObject_client [of env h s bl w] by (auto split: prod.splits)
next
  case (Call_DeleteSObject s)
  then show ?thesis
    using DeleteSObject_client [of env h s w] by (auto split: prod.splits)
next
  case Call_DescribeGlobal
  then show ?thesis
    using DescribeGlobal_client [of env h w] by (auto split: prod.splits)
next
  case (Call_DownloadFile i p)
  then show ?thesis
    using DownloadFile_client [of env h i p w] by (auto split: prod.splits)
next
  case (Call_makeURL u)
  then show ?thesis
    using makeURL_client [of h u] by (auto split: prod.splits)
next
  case (Call_request m u b hs)
  then show ?thesis
    using request_client [of env h m u b hs w] by (auto split: prod.splits)
qed

lemma run_client: "fst (run env cs (h, w)) = h"
proof (induction cs arbitrary: w)
  case Nil
  then show ?case by simp
next
  case (Cons c cs)
  obtain h1 w1 where e: "exec env c (h, w) = (h1, w1)"
    by (cases "exec env c (h, w)")
  with exec_client [of env c h w] have "h1 = h" by simp
  with e Cons show ?case by simp
qed

subsection \<open>Construction and endpoint URLs\<close>

text \<open>
  Claim C4.  The constructor stores the base URL with one trailing \<open>/\<close> removed (and only
  one: of \<open>b @ ''/''\<close> it stores \<open>b\<close>, whatever \<open>b\<close> ends in) and stores a base URL that does
  not end in \<open>/\<close> as it is; the API version is stored as supplied.  \<open>makeURL\<close> builds
  \<open>{base}/services/data/{api-version}/{resource-path}\<close>, and every typed-resource operation
  sends either nothing or one request whose URL has this form, with the resource path of
  the operation.
\<close>

theorem NewHTTPClient_makeURL:
  "baseURL (NewHTTPClient hc (b @ ''/'') ver) = b
   \<and> ((\<forall>b'. b \<noteq> b' @ ''/'') \<longrightarrow> baseURL (NewHTTPClient hc b ver) = b)
   \<and> apiVersion (NewHTTPClient hc b ver) = ver
   \<and> makeURL h path = (baseURL h @ ''/services/data/'' @ apiVersion h @ ''/'' @ path, h)
   \<and> sent_urls (fst (snd (snd (DescribeSObject env h s w))))
        \<in> {sent_urls w,
            sent_urls w @ [baseURL h @ ''/services/data/'' @ apiVersion h @ ''/''
                             @ ''sobjects/'' @ Type s @ ''/describe'']}
   \<and> sent_urls (fst (snd (snd (CreateSObject env h s bl w))))
        \<in> {sent_urls w,
            sent_urls w @ [baseURL h @ ''/services/data/'' @ apiVersion h @ ''/''
                             @ ''sobjects/'' @ Type s @ ''/'']}
   \<and> sent_urls (fst (snd (snd (GetSObject env h s w))))
        \<in> {sent_urls w,
            sent_urls w @ [baseURL h @ ''/services/data/'' @ apiVersion h @ ''/''
                             @ ''sobjects/'' @ Type s @ ''/'' @ ID s]}
   \<and> sent_urls (fst (snd (snd (UpdateSObject env h s bl w))))
        \<in> {sent_urls w,
            sent_urls w @ [baseURL h @ ''/services/data/'' @ apiVersion h @ ''/''
                             @ ''sobjects/'' @ Type s @ ''/'' @ ID s]}
   \<and> sent_urls (fst (snd (snd (DeleteSObject env h s w))))
        \<in> {sent_urls w,
            sent_urls w @ [baseURL h @ ''/services/data/'' @ apiVersion h @ ''/''
                             @ ''sobjects/'' @ Type s @ ''/'' @ ID s]}
   \<and> sent_urls (fst (snd (DescribeGlobal env h w)))
        \<in> {sent_urls w,
            sent_urls w @ [baseURL h @ ''/services/data/'' @ apiVersion h @ ''/''
                             @ ''sobjects'']}
   \<and> sent_urls (fst (snd (DownloadFile env h i p w)))
        \<in> {sent_urls w,
            sent_urls w @ [baseURL h @ ''/services/data/'' @ apiVersion h @ ''/''
                             @ ''sobjects/ContentVersion/'' @ i @ ''/VersionData'']}
   \<and> sent_urls (fst (snd (Query env h q [] w)))
        \<in> {sent_urls w,
            sent_urls w @ [baseURL h @ ''/services/data/'' @ apiVersion h @ ''/''
                             @ ''query?q='' @ PathEscape q]}"
proof -
  have ctor: "baseURL (NewHTTPClient hc (b @ ''/'') ver) = b
      \<and> ((\<forall>b'. b \<noteq> b' @ ''/'') \<longrightarrow> baseURL (NewHTTPClient hc b ver) = b)
      \<and> apiVersion (NewHTTPClient hc b ver) = ver"
    using TrimSuffix_slash_none [of b] HasSuffix_slash [of b]
    by (auto simp add: NewHTTPClient_def TrimSuffix_slash_append)
  have mk: "makeURL h path = (baseURL h @ ''/services/data/'' @ apiVersion h @ ''/'' @ path, h)"
    by (simp add: makeURL_def)
  have d: "sent_urls (fst (snd (snd (DescribeSObject env h s w))))
        \<in> {sent_urls w,
            sent_urls w @ [baseURL h @ ''/services/data/'' @ apiVersion h @ ''/''
                             @ ''sobjects/'' @ Type s @ ''/describe'']}"
    by (simp add: DescribeSObject_world request_sent_urls makeURL_def split: option.splits)
  have c: "sent_urls (fst (snd (snd (CreateSObject env h s bl w))))
        \<in> {sent_urls w,
            sent_urls w @ [baseURL h @ ''/services/data/'' @ apiVersion h @ ''/''
                             @ ''sobjects/'' @ Type s @ ''/'']}"
    by (simp add: CreateSObject_world request_sent_urls makeURL_def
        split: option.splits sum.splits)
  have g: "sent_urls (fst (snd (snd (GetSObject env h s w))))
        \<in> {sent_urls w,
            sent_urls w @ [baseURL h @ ''/services/data/'' @ apiVersion h @ ''/''
                             @ ''sobjects/'' @ Type s @ ''/'' @ ID s]}"
    by (simp add: GetSObject_world request_sent_urls makeURL_def split: option.splits)
  have u: "sent_urls (fst (snd (snd (UpdateSObject env h s bl w))))
        \<in> {sent_urls w,
            sent_urls w @ [baseURL h @ ''/services/data/'' @ apiVersion h @ ''/''
                             @ ''sobjects/'' @ Type s @ ''/'' @ ID s]}"
    by (simp add: UpdateSObject_world request_sent_urls makeURL_def
        split: option.splits sum.splits)
  have x: "sent_urls (fst (snd (snd (DeleteSObject env h s w))))
        \<in> {sent_urls w,
            sent_urls w @ [baseURL h @ ''/services/data/'' @ apiVersion h @ ''/''
                             @ ''sobjects/'' @ Type s @ ''/'' @ ID s]}"
    by (simp add: DeleteSObject_world request_sent_urls makeURL_def split: option.splits)
  have dg: "sent_urls (fst (snd (DescribeGlobal env h w)))
        \<in> {sent_urls w,
            sent_urls w @ [baseURL h @ ''/services/data/'' @ apiVersion h @ ''/''
                             @ ''sobjects'']}"
    by (simp add: DescribeGlobal_world request_sent_urls split: option.splits)
  have dl: "sent_urls (fst (snd (DownloadFile env h i p w)))
        \<in> {sent_urls w,
            sent_urls w @ [baseURL h @ ''/services/data/'' @ apiVersion h @ ''/''
                             @ ''sobjects/ContentVersion/'' @ i @ ''/VersionData'']}"
    by (simp add: DownloadFile_sent_urls request_sent_urls split: option.splits)
  have qy: "sent_urls (fst (snd (Query env h q [] w)))
        \<in> {sent_urls w,
            sent_urls w @ [baseURL h @ ''/services/data/'' @ apiVersion h @ ''/''
                             @ ''query?q='' @ PathEscape q]}"
    by (simp add: Query_world request_sent_urls split: option.splits)
  from ctor mk d c g u x dg dl qy show ?thesis
    by blast
qed

theorem NewHTTPClient_makeURL_witness:
  "baseURL (NewHTTPClient (respond 200 (BodyStream [] None)) ''https://example.com//'' ''v43.0'')
     = ''https://example.com/''
   \<and> baseURL (NewHTTPClient (respond 200 (BodyStream [] None)) ''https://example.com'' ''v43.0'')
     = ''https://example.com''
   \<and> makeURL (client_answering 200 []) ''sobjects/Case/object1''
     = (''https://example.com/services/data/v43.0/sobjects/Case/object1'',
        client_answering 200 [])
   \<and> sent_urls (fst (snd (snd (GetSObject example_env (client_answering 200 [])
        example_record world0))))
     = [''https://example.com/services/data/v43.0/sobjects/Case/object1'']"
proof -
  have no_slash: "\<forall>b'. ''https://example.com'' \<noteq> b' @ ''/''"
    using HasSuffix_slash [of "''https://example.com''"] by (simp add: HasSuffix_def)
  have sent: "sent_urls (fst (snd (snd (GetSObject example_env (client_answering 200 [])
                example_record world0))))
              = [''https://example.com/services/data/v43.0/sobjects/Case/object1'']"
    by (simp add: GetSObject_world request_sent_urls example_record_Type_ID makeURL_def
        client_answering_fields example_env_def world0_observed)
  show ?thesis
    using no_slash sent
      NewHTTPClient_makeURL [of "respond 200 (BodyStream [] None)" "''https://example.com/''"
        "''v43.0''" "client_answering 200 []" "''sobjects/Case/object1''"]
      NewHTTPClient_makeURL [of "respond 200 (BodyStream [] None)" "''https://example.com''"
        "''v43.0''" "client_answering 200 []" "''sobjects/Case/object1''"]
    by (simp add: client_answering_fields)
qed

subsection \<open>Creating a record\<close>

text \<open>
  Claim C1.  For a record with a non-empty type whose payload marshals and whose POST is
  answered with a 2xx response that decodes to a create response: when the response reports
  success and a non-empty id, \<open>CreateSObject\<close> returns no error and the record's ID is that id;
  when it reports failure or an empty id, \<open>CreateSObject\<close> returns an error (\<open>ErrFailure\<close>) and
  the record, its ID included, is as it was.
\<close>

theorem CreateSObject_sets_ID:
  assumes "Type s \<noteq> []"
    and "Marshal env (fst (makeCopy s bl)) = Inr reqData"
    and "NewRequest_err env ''POST'' (fst (makeURL h (''sobjects/'' @ Type s @ ''/''))) = None"
    and "httpClient h (events w)
           \<lparr>Method = ''POST'', URL = fst (makeURL h (''sobjects/'' @ Type s @ ''/'')),
            ReqBody = Some reqData, ReqHeader = request_headers None\<rparr> = Inr res"
    and "200 \<le> StatusCode res" and "StatusCode res < 300"
    and "Decode_createSObjectResponse env (Body res) = Inr (Some resData)"
  shows "(res_Success resData \<and> res_ID resData \<noteq> [] \<longrightarrow>
            fst (CreateSObject env h s bl w) = Return None
            \<and> fst (snd (CreateSObject env h s bl w)) = SetID s (res_ID resData)
            \<and> ID (fst (snd (CreateSObject env h s bl w))) = res_ID resData)
       \<and> (\<not> res_Success resData \<or> res_ID resData = [] \<longrightarrow>
            fst (CreateSObject env h s bl w) = Return (Some ErrFailure)
            \<and> fst (snd (CreateSObject env h s bl w)) = s
            \<and> ID (fst (snd (CreateSObject env h s bl w))) = ID s)"
proof -
  let ?url = "fst (makeURL h (''sobjects/'' @ Type s @ ''/''))"
  let ?req = "\<lparr>Method = ''POST'', URL = ?url,
               ReqBody = Some reqData, ReqHeader = request_headers None\<rparr>"
  let ?w1 = "w\<lparr>events := events w @ [Sent ?req]\<rparr>"
  have req: "request env h ''POST'' ?url (Some reqData) None w = (Succeeded res, ?w1, h)"
    using assms(3-6) by (rule request_2xx)
  have "CreateSObject env h s bl w =
          (if \<not> res_Success resData \<or> res_ID resData = []
           then (Return (Some ErrFailure), s, ?w1, h)
           else (Return None, SetID s (res_ID resData), ?w1, h))"
    using assms(1,2,7) req by (simp add: CreateSObject_def makeCopy_def makeURL_def)
  then show ?thesis by (simp add: ID_SetID)
qed

theorem CreateSObject_sets_ID_witness:
  "fst (CreateSObject example_env (client_answering 201 ''created X'') example_record
          [''Id''] world0) = Return None
   \<and> ID (fst (snd (CreateSObject example_env (client_answering 201 ''created X'')
          example_record [''Id''] world0))) = ''X''
   \<and> ID example_record = ''object1''
   \<and> fst (CreateSObject example_env (client_answering 200 ''refused'') example_record
          [''Id''] world0) = Return (Some ErrFailure)
   \<and> ID (fst (snd (CreateSObject example_env (client_answering 200 ''refused'')
          example_record [''Id''] world0))) = ''object1''"
  using CreateSObject_sets_ID [of example_record example_env "[''Id'']" "''{}''"
      "client_answering 201 ''created X''" world0
      "\<lparr>StatusCode = 201, Body = BodyStream ''created X'' None\<rparr>"
      "\<lparr>res_ID = ''X'', res_Success = True\<rparr>"]
    CreateSObject_sets_ID [of example_record example_env "[''Id'']" "''{}''"
      "client_answering 200 ''refused''" world0
      "\<lparr>StatusCode = 200, Body = BodyStream ''refused'' None\<rparr>"
      "\<lparr>res_ID = [], res_Success = False\<rparr>"]
  by (simp add: example_record_Type_ID ID_SetID example_env_def client_answering_fields
      respond_def makeURL_def)

subsection \<open>Validation before any request\<close>

text \<open>
  Claim C2.  For a record whose type is empty, \<open>CreateSObject\<close>, \<open>GetSObject\<close>,
  \<open>UpdateSObject\<close> and \<open>DeleteSObject\<close> return the validation error \<open>ErrFailure\<close> and leave the
  record and the world as they were: no request reaches the transport.  For a record
  whose id is empty, whatever its type, \<open>GetSObject\<close> and \<open>DeleteSObject\<close> do the same.
\<close>

theorem validation_before_request:
  "(Type s = [] \<longrightarrow>
      CreateSObject env h s bl w = (Return (Some ErrFailure), s, w, h)
      \<and> GetSObject env h s w = (Some ErrFailure, s, w, h)
      \<and> UpdateSObject env h s bl w = (Some ErrFailure, s, w, h)
      \<and> DeleteSObject env h s w = (Some ErrFailure, s, w, h))
   \<and> (ID s = [] \<longrightarrow>
      GetSObject env h s w = (Some ErrFailure, s, w, h)
      \<and> DeleteSObject env h s w = (Some ErrFailure, s, w, h))"
  by (simp add: CreateSObject_def GetSObject_def UpdateSObject_def DeleteSObject_def)

theorem validation_before_request_witness:
  "Type untyped_record = [] \<and> ID untyped_record = ''object1''
   \<and> CreateSObject example_env (client_answering 200 []) untyped_record [] world0
        = (Return (Some ErrFailure), untyped_record, world0, client_answering 200 [])
   \<and> UpdateSObject example_env (client_answering 200 []) untyped_record [] world0
        = (Some ErrFailure, untyped_record, world0, client_answering 200 [])
   \<and> Type unsaved_record = ''Case'' \<and> ID unsaved_record = []
   \<and> GetSObject example_env (client_answering 200 []) unsaved_record world0
        = (Some ErrFailure, unsaved_record, world0, client_answering 200 [])
   \<and> DeleteSObject example_env (client_answering 200 []) unsaved_record world0
        = (Some ErrFailure, unsaved_record, world0, client_answering 200 [])
   \<and> sent world0 = []"
  using validation_before_request [of untyped_record example_env "client_answering 200 []"
      "[]" world0]
    validation_before_request [of unsaved_record example_env "client_answering 200 []"
      "[]" world0]
  by (simp add: untyped_record_def unsaved_record_def Type_def ID_def sobjectIDKey_def
      world0_observed)

subsection \<open>Updating a record\<close>

text \<open>
  Claim C9.  For a record with a non-empty type and id, an \<open>UpdateSObject\<close> that returns no
  error leaves the record as it was: the same type, the same id and the same fields.
\<close>

theorem UpdateSObject_record_unchanged:
  assumes "Type s \<noteq> []" and "ID s \<noteq> []"
    and "fst (UpdateSObject env h s bl w) = None"
  shows "fst (snd (UpdateSObject env h s bl w)) = s
         \<and> Type (fst (snd (UpdateSObject env h s bl w))) = Type s
         \<and> ID (fst (snd (UpdateSObject env h s bl w))) = ID s
         \<and> sobj_fields (fst (snd (UpdateSObject env h s bl w))) = sobj_fields s"
proof -
  have "fst (snd (UpdateSObject env h s bl w)) = s"
    by (simp add: UpdateSObject_def makeCopy_def makeURL_def
        split: sum.splits prod.splits request_result.splits)
  then show ?thesis by simp
qed

theorem UpdateSObject_record_unchanged_witness:
  "Type example_record = ''Case'' \<and> ID example_record = ''object1''
   \<and> fst (UpdateSObject example_env (client_answering 204 []) example_record [''Id''] world0)
        = None
   \<and> fst (snd (UpdateSObject example_env (client_answering 204 []) example_record [''Id'']
        world0)) = example_record"
proof -
  have ok: "fst (UpdateSObject example_env (client_answering 204 []) example_record [''Id'']
              world0) = None"
    by (simp add: UpdateSObject_def makeCopy_def makeURL_def request_def example_env_def
        example_record_Type_ID client_answering_fields respond_def Let_def)
  show ?thesis
    using ok UpdateSObject_record_unchanged [of example_record example_env
        "client_answering 204 []" "[''Id'']" world0]
    by (simp add: example_record_Type_ID)
qed

subsection \<open>Downloading a file\<close>

text \<open>
  Claim C10.  \<open>DownloadFile\<close> creates (or truncates) the destination only after its request
  has returned without error.  If the request fails, with \<open>(nil, err)\<close> or with the error of
  a rejected response, \<open>DownloadFile\<close> returns that error and the file system is as it was and
  no file was created; if the file system or the list of created files has changed, the
  request had succeeded and the creation follows the request in the trace; a response with
  a status code outside 200-299 always ends in an error with the file system untouched.
\<close>

theorem DownloadFile_creates_after_request:
  assumes "url = baseURL h @ ''/services/data/'' @ apiVersion h @ ''/sobjects/ContentVersion/''
                   @ i @ ''/VersionData''"
    and "req = \<lparr>Method = ''GET'', URL = url, ReqBody = None, ReqHeader = json_headers\<rparr>"
  shows "(fst (request env h ''GET'' url None (Some json_headers) w) = Failed e
          \<or> fst (request env h ''GET'' url None (Some json_headers) w) = Rejected res e
          \<longrightarrow> fst (DownloadFile env h i p w) = Some e
              \<and> files (fst (snd (DownloadFile env h i p w))) = files w
              \<and> created (fst (snd (DownloadFile env h i p w))) = created w)
       \<and> (files (fst (snd (DownloadFile env h i p w))) \<noteq> files w
          \<or> created (fst (snd (DownloadFile env h i p w))) \<noteq> created w
          \<longrightarrow> (\<exists>res'. request env h ''GET'' url None (Some json_headers) w
                         = (Succeeded res', w\<lparr>events := events w @ [Sent req]\<rparr>, h))
              \<and> events (fst (snd (DownloadFile env h i p w))) = events w @ [Sent req, Created p])
       \<and> (NewRequest_err env ''GET'' url = None
          \<and> httpClient h (events w) req = Inr resp
          \<and> (StatusCode resp < 200 \<or> 300 \<le> StatusCode resp)
          \<longrightarrow> fst (DownloadFile env h i p w) \<noteq> None
              \<and> files (fst (snd (DownloadFile env h i p w))) = files w
              \<and> created (fst (snd (DownloadFile env h i p w))) = created w)"
proof -
  obtain r w1 h1 where rq0: "request env h ''GET'' url None (Some json_headers) w = (r, w1, h1)"
    by (cases "request env h ''GET'' url None (Some json_headers) w") auto
  have rq: "request env h ''GET'' url None (Some json_headers) w = (r, w1, h)"
    using rq0 request_result_client [OF rq0] by simp
  have fs: "files w1 = files w"
    using request_files [of env h "''GET''" url None "Some json_headers" w] rq by simp
  have cr: "created w1 = created w"
    using request_created [of env h "''GET''" url None "Some json_headers" w] rq by simp
  have dl: "DownloadFile env h i p w =
      (case r of
         Failed err \<Rightarrow> (Some err, w1, h)
       | Rejected res0 err \<Rightarrow> (Some err, w1, h)
       | Succeeded res0 \<Rightarrow>
           (case Create_err env (files w1) p of
              Some err \<Rightarrow> (Some err, w1, h)
            | None \<Rightarrow>
                (case Body res0 of
                   BodyStream bs e0 \<Rightarrow>
                     (e0, w1\<lparr>events := events w1 @ [Created p],
                             files := (files w1)(p \<mapsto> bs)\<rparr>, h))))"
    using rq assms(1) by (simp add: DownloadFile_def Let_def split: request_result.splits)
  have part1: "fst (DownloadFile env h i p w) = Some e
      \<and> files (fst (snd (DownloadFile env h i p w))) = files w
      \<and> created (fst (snd (DownloadFile env h i p w))) = created w"
    if "r = Failed e \<or> r = Rejected res e"
    using that dl fs cr by auto
  have part2: "(\<exists>res'. request env h ''GET'' url None (Some json_headers) w
                         = (Succeeded res', w\<lparr>events := events w @ [Sent req]\<rparr>, h))
      \<and> events (fst (snd (DownloadFile env h i p w))) = events w @ [Sent req, Created p]"
    if ch: "files (fst (snd (DownloadFile env h i p w))) \<noteq> files w
          \<or> created (fst (snd (DownloadFile env h i p w))) \<noteq> created w"
  proof (cases r)
    case (Failed err)
    with ch dl fs cr show ?thesis by simp
  next
    case (Rejected res0 err)
    with ch dl fs cr show ?thesis by simp
  next
    case (Succeeded res0)
    then have w1: "w1 = w\<lparr>events := events w @ [Sent req]\<rparr>"
      using request_Succeeded_world [of env h "''GET''" url None "Some json_headers" w
          res0 w1 h] rq assms(2)
      by (simp add: request_headers_json)
    show ?thesis
    proof (cases "Create_err env (files w1) p")
      case None
      obtain bs e0 where b: "Body res0 = BodyStream bs e0"
        by (cases "Body res0")
      from Succeeded None b rq w1 dl show ?thesis by simp
    next
      case (Some err)
      with Succeeded ch dl fs cr show ?thesis by simp
    qed
  qed
  have part3: "fst (DownloadFile env h i p w) \<noteq> None
      \<and> files (fst (snd (DownloadFile env h i p w))) = files w
      \<and> created (fst (snd (DownloadFile env h i p w))) = created w"
    if "NewRequest_err env ''GET'' url = None" and "httpClient h (events w) req = Inr resp"
      and "StatusCode resp < 200 \<or> 300 \<le> StatusCode resp"
  proof -
    have "\<exists>e'. r = Failed e' \<or> (\<exists>r'. r = Rejected r' e')"
      using that rq assms(2)
      by (auto simp add: request_def Let_def request_headers_json parseSalesforceError_def
          split: sum.splits prod.splits option.splits)
    then show ?thesis using dl fs cr by auto
  qed
  show ?thesis using part1 part2 part3 rq by simp
qed

theorem DownloadFile_creates_after_request_witness:
  "fst (DownloadFile example_env (client_answering 404 ''NOT_FOUND gone'') ''068xx''
          ''/tmp/out'' world0) = Some (SalesforceError 404 ''NOT_FOUND'' ''gone'')
   \<and> files (fst (snd (DownloadFile example_env (client_answering 404 ''NOT_FOUND gone'')
          ''068xx'' ''/tmp/out'' world0))) = files world0
   \<and> created (fst (snd (DownloadFile example_env (client_answering 404 ''NOT_FOUND gone'')
          ''068xx'' ''/tmp/out'' world0))) = []"
  using DownloadFile_creates_after_request [of
      "''https://example.com/services/data/v43.0/sobjects/ContentVersion/068xx/VersionData''"
      "client_answering 404 ''NOT_FOUND gone''" "''068xx''"
      "\<lparr>Method = ''GET'',
        URL = ''https://example.com/services/data/v43.0/sobjects/ContentVersion/068xx/VersionData'',
        ReqBody = None, ReqHeader = json_headers\<rparr>"
      example_env world0 "SalesforceError 404 ''NOT_FOUND'' ''gone''"
      "\<lparr>StatusCode = 404, Body = BodyStream ''NOT_FOUND gone'' None\<rparr>" "''/tmp/out''"
      "\<lparr>StatusCode = 404, Body = BodyStream ''NOT_FOUND gone'' None\<rparr>"]
  by (simp add: request_def request_headers_json example_env_def client_answering_fields
      respond_def NewBuffer_def parseSalesforceError_def Let_def world0_observed)

subsection \<open>Rejected responses\<close>

lemma ReadAll_consumes:
  "fst (ReadAll bd) = Inr bytes \<Longrightarrow> fst (ReadAll (snd (ReadAll bd))) = Inr []"
  by (cases bd rule: ReadAll.cases) simp_all

lemma ReadAll_NewBuffer: "fst (ReadAll (NewBuffer bytes)) = Inr bytes"
  by (simp add: NewBuffer_def)

lemma parseSalesforceError_not_nil: "\<exists>err. parseSalesforceError env code bytes = Some err"
  by (cases "Unmarshal_error env bytes") (auto simp add: parseSalesforceError_def)

text \<open>
  Claim C6 as stated fails: a response with a status code outside 200-299 whose body cannot
  be read to its end yields no response at all, only the read error.
\<close>

theorem request_unreadable_body_counterexample:
  "fst (request example_env
         (NewHTTPClient
            (respond 500 (BodyStream ''Internal Server Err'' (Some (External ''unexpected EOF''))))
            ''https://example.com'' ''v43.0'')
         ''GET'' ''https://example.com/services/data/v43.0/sobjects'' None None world0)
     = Failed (External ''unexpected EOF'')"
  by (simp add: request_def example_env_def NewHTTPClient_def respond_def Let_def world0_def)

text \<open>
  Claim C6, amended.  For a request that reaches the transport and is answered: when the
  status code is outside 200-299 and the body can be read to its end, \<open>request\<close> reads it
  and returns a response together with an error; the error is the one
  \<open>parseSalesforceError\<close> builds from the status code and the bytes read, the response has
  the status code received, and from its body the bytes read can be read in full again.
  When the body cannot be read, \<open>request\<close> returns no response and the read error.  When the
  status code is in 200-299, it returns the response as the transport gave it, its body
  not read, and no error.
\<close>

theorem request_by_status:
  assumes "NewRequest_err env m u = None"
    and "httpClient h (events w)
           \<lparr>Method = m, URL = u, ReqBody = b, ReqHeader = request_headers hs\<rparr> = Inr res"
  shows "((StatusCode res < 200 \<or> 300 \<le> StatusCode res)
            \<and> fst (ReadAll (Body res)) = Inr bytes \<longrightarrow>
            (case fst (request env h m u b hs w) of
               Rejected res' err \<Rightarrow>
                 parseSalesforceError env (StatusCode res) bytes = Some err
                 \<and> StatusCode res' = StatusCode res
                 \<and> fst (ReadAll (Body res')) = Inr bytes
             | Failed err \<Rightarrow> False
             | Succeeded res' \<Rightarrow> False))
       \<and> ((StatusCode res < 200 \<or> 300 \<le> StatusCode res)
            \<and> fst (ReadAll (Body res)) = Inl e \<longrightarrow>
            fst (request env h m u b hs w) = Failed e)
       \<and> (200 \<le> StatusCode res \<and> StatusCode res < 300 \<longrightarrow>
            fst (request env h m u b hs w) = Succeeded res)"
proof -
  have rejected: "case fst (request env h m u b hs w) of
               Rejected res' err \<Rightarrow>
                 parseSalesforceError env (StatusCode res) bytes = Some err
                 \<and> StatusCode res' = StatusCode res
                 \<and> fst (ReadAll (Body res')) = Inr bytes
             | Failed err \<Rightarrow> False
             | Succeeded res' \<Rightarrow> False"
    if out: "StatusCode res < 200 \<or> 300 \<le> StatusCode res"
      and rd: "fst (ReadAll (Body res)) = Inr bytes"
  proof -
    obtain consumed where ra: "ReadAll (Body res) = (Inr bytes, consumed)"
      using rd by (cases "ReadAll (Body res)") simp
    obtain err where pe: "parseSalesforceError env (StatusCode res) bytes = Some err"
      using parseSalesforceError_not_nil by blast
    have "fst (request env h m u b hs w) = Rejected (res\<lparr>Body := NewBuffer bytes\<rparr>) err"
      using assms out ra pe by (auto simp add: request_def Let_def)
    then show ?thesis
      using pe by (simp add: ReadAll_NewBuffer)
  qed
  have failed: "fst (request env h m u b hs w) = Failed e"
    if out: "StatusCode res < 200 \<or> 300 \<le> StatusCode res"
      and rd: "fst (ReadAll (Body res)) = Inl e"
  proof -
    obtain consumed where ra: "ReadAll (Body res) = (Inl e, consumed)"
      using rd by (cases "ReadAll (Body res)") simp
    show ?thesis
      using assms out ra by (auto simp add: request_def Let_def)
  qed
  have succeeded: "fst (request env h m u b hs w) = Succeeded res"
    if "200 \<le> StatusCode res" and "StatusCode res < 300"
    using assms that by (simp add: request_def Let_def)
  show ?thesis
    using rejected failed succeeded by blast
qed

theorem request_by_status_witness:
  "fst (request example_env (client_answering 404 ''NOT_FOUND gone'') ''GET''
          ''https://example.com/x'' None None world0)
     = Rejected \<lparr>StatusCode = 404, Body = BodyStream ''NOT_FOUND gone'' None\<rparr>
         (SalesforceError 404 ''NOT_FOUND'' ''gone'')
   \<and> fst (ReadAll (BodyStream ''NOT_FOUND gone'' None)) = Inr ''NOT_FOUND gone''
   \<and> fst (request example_env (client_answering 500 ''oops'') ''GET''
          ''https://example.com/x'' None None world0)
     = Rejected \<lparr>StatusCode = 500, Body = BodyStream ''oops'' None\<rparr> ErrFailure
   \<and> fst (request example_env (client_answering 204 ''kept'') ''GET''
          ''https://example.com/x'' None None world0)
     = Succeeded \<lparr>StatusCode = 204, Body = BodyStream ''kept'' None\<rparr>"
  using request_by_status [of example_env "''GET''" "''https://example.com/x''"
      "client_answering 404 ''NOT_FOUND gone''" world0 None None
      "\<lparr>StatusCode = 404, Body = BodyStream ''NOT_FOUND gone'' None\<rparr>" "''NOT_FOUND gone''"
      "External ''none''"]
    request_by_status [of example_env "''GET''" "''https://example.com/x''"
      "client_answering 500 ''oops''" world0 None None
      "\<lparr>StatusCode = 500, Body = BodyStream ''oops'' None\<rparr>" "''oops''"
      "External ''none''"]
    request_by_status [of example_env "''GET''" "''https://example.com/x''"
      "client_answering 204 ''kept''" world0 None None
      "\<lparr>StatusCode = 204, Body = BodyStream ''kept'' None\<rparr>" "''kept''"
      "External ''none''"]
  by (simp add: request_def Let_def example_env_def client_answering_fields respond_def
      parseSalesforceError_def NewBuffer_def)

subsection \<open>Request headers\<close>

text \<open>
  Claim C7 as stated fails: headers supplied without a \<open>Content-Type\<close> do not replace the
  default, they are sent together with it.
\<close>

theorem request_headers_merged_counterexample:
  "accept_only ''Content-Type'' = None
   \<and> sent_header (fst (snd (request example_env (client_answering 200 []) ''GET''
         ''https://example.com/x'' None (Some accept_only) world0))) ''Content-Type''
       = [Some [''application/json'']]
   \<and> sent_header (fst (snd (request example_env (client_answering 200 []) ''GET''
         ''https://example.com/x'' None (Some accept_only) world0))) ''Accept''
       = [Some [''application/json'']]"
  by (simp add: request_def example_env_def client_answering_fields respond_def Let_def
      world0_def sent_header_def sent_def accept_only_def request_headers_def Header_Get_def
      Header_Set_def)

text \<open>
  Claim C7, amended.  A request that reaches the transport carries: with no headers
  supplied, \<open>Content-Type: application/json\<close> alone; with headers supplied that have a
  non-empty \<open>Content-Type\<close>, exactly the supplied headers; with headers supplied that have no
  \<open>Content-Type\<close> or an empty one, the supplied headers with \<open>Content-Type\<close> set to
  \<open>application/json\<close>.  The headers \<open>DownloadFile\<close> and \<open>DescribeGlobal\<close> supply are of the
  second kind.
\<close>

theorem request_content_type:
  assumes "NewRequest_err env m u = None"
  shows "sent (fst (snd (request env h m u b hs w)))
           = sent w @ [\<lparr>Method = m, URL = u, ReqBody = b, ReqHeader = request_headers hs\<rparr>]
       \<and> request_headers None = [''Content-Type'' \<mapsto> [''application/json'']]
       \<and> (Header_Get hdr ''Content-Type'' \<noteq> [] \<longrightarrow> request_headers (Some hdr) = hdr)
       \<and> (Header_Get hdr ''Content-Type'' = [] \<longrightarrow>
            request_headers (Some hdr) = hdr(''Content-Type'' \<mapsto> [''application/json'']))
       \<and> request_headers (Some json_headers) = json_headers"
  using assms
  by (simp add: sent_def request_events request_headers_json)
     (simp add: request_headers_def Header_Get_def Header_Set_def)

theorem request_content_type_witness:
  "Header_Get json_headers ''Content-Type'' = ''application/json; charset=UTF-8''
   \<and> sent_header (fst (snd (request example_env (client_answering 200 []) ''GET''
         ''https://example.com/x'' None (Some json_headers) world0))) ''Content-Type''
       = [Some [''application/json; charset=UTF-8'']]
   \<and> Header_Get accept_only ''Content-Type'' = []
   \<and> request_headers (Some accept_only) ''Content-Type'' = Some [''application/json'']
   \<and> request_headers (Some accept_only) ''Accept'' = Some [''application/json'']"
  using request_content_type [of example_env "''GET''" "''https://example.com/x''"
      "client_answering 200 []" None "Some json_headers" world0 json_headers]
    request_content_type [of example_env "''GET''" "''https://example.com/x''"
      "client_answering 200 []" None "Some json_headers" world0 accept_only]
  by (simp add: example_env_def sent_header_def world0_observed)
     (simp add: json_headers_def accept_only_def Header_Get_def Header_Set_def)

subsection \<open>The client's own fields\<close>

text \<open>
  Claim C5 as stated fails: \<open>makeURL\<close> of the earlier client assigns to the client's API
  version, so the version read after the call differs from the one read before.
\<close>

theorem makeURL_v1_rewrites_version_counterexample:
  "apiVersion_v1 (NewHTTPClient_v1 (respond 200 (BodyStream [] None)) ''https://example.com''
     ''v43.0'') = ''v43.0''
   \<and> apiVersion_v1 (snd (makeURL_v1
        (NewHTTPClient_v1 (respond 200 (BodyStream [] None)) ''https://example.com'' ''v43.0'')
        ''sobjects/Case/describe'')) = ''43.0''"
  by (simp add: NewHTTPClient_v1_def makeURL_v1_def Let_def HasSuffix_def)

text \<open>
  Claim C5, amended.  Every method of the later client returns the client it was given:
  \<open>makeURL\<close>, \<open>request\<close> and, through them, each operation.  So every sequence of calls of
  the later client leaves the client as it was: the base URL and the API version read
  after the calls are those read before.  Of the earlier client, \<open>makeURL\<close> leaves the base
  URL and the instance URL as they were and replaces the API version by itself with every
  \<open>v\<close> removed, so it leaves the client as it was exactly when the version holds no \<open>v\<close>.
\<close>

theorem client_fields_after_calls:
  "snd (makeURL h u) = h
   \<and> snd (snd (request env h m u b hs w)) = h
   \<and> fst (run env cs (h, w)) = h
   \<and> baseURL (fst (run env cs (h, w))) = baseURL h
   \<and> apiVersion (fst (run env cs (h, w))) = apiVersion h
   \<and> baseURL_v1 (snd (makeURL_v1 c req)) = baseURL_v1 c
   \<and> instanceURL_v1 (snd (makeURL_v1 c req)) = instanceURL_v1 c
   \<and> apiVersion_v1 (snd (makeURL_v1 c req)) = filter (\<lambda>x. x \<noteq> CHR ''v'') (apiVersion_v1 c)
   \<and> (CHR ''v'' \<notin> set (apiVersion_v1 c) \<longrightarrow> snd (makeURL_v1 c req) = c)"
proof -
  have "fst (run env cs (h, w)) = h"
    by (rule run_client)
  moreover have "filter (\<lambda>x. x \<noteq> CHR ''v'') (apiVersion_v1 c) = apiVersion_v1 c"
    if "CHR ''v'' \<notin> set (apiVersion_v1 c)"
    using that by (simp add: filter_id_conv) blast
  ultimately show ?thesis
    by (simp add: makeURL_v1_def Let_def makeURL_client request_client)
qed

theorem client_fields_after_calls_witness:
  "baseURL (fst (run example_env
       [Call_GetSObject example_record, Call_makeURL ''sobjects'',
        Call_request ''GET'' ''https://example.com/x'' None None,
        Call_DownloadFile ''068xx'' ''/tmp/out'']
       (client_answering 200 [], world0))) = ''https://example.com''
   \<and> apiVersion (fst (run example_env
       [Call_GetSObject example_record, Call_makeURL ''sobjects'',
        Call_request ''GET'' ''https://example.com/x'' None None,
        Call_DownloadFile ''068xx'' ''/tmp/out'']
       (client_answering 200 [], world0))) = ''v43.0''
   \<and> CHR ''v'' \<notin> set ''43.0''
   \<and> apiVersion_v1 (snd (makeURL_v1
        (NewHTTPClient_v1 (respond 200 (BodyStream [] None)) ''https://example.com'' ''43.0'')
        ''sobjects'')) = ''43.0''"
  using client_fields_after_calls [of "client_answering 200 []" "''sobjects''" example_env
      "''GET''" None None world0
      "[Call_GetSObject example_record, Call_makeURL ''sobjects'',
        Call_request ''GET'' ''https://example.com/x'' None None,
        Call_DownloadFile ''068xx'' ''/tmp/out'']"
      "NewHTTPClient_v1 (respond 200 (BodyStream [] None)) ''https://example.com'' ''43.0''"
      "''sobjects''"]
  by (simp add: client_answering_fields NewHTTPClient_v1_def Let_def)

subsection \<open>The redacted copy\<close>

text \<open>
  Claim C8.  The redacted copy of a record has as keys exactly the record's keys that are
  not in the exclusion list (names are compared as they are, case included), gives each
  of them the value the record gives it, and leaves the receiver as it was.
\<close>

theorem makeCopy_redacts:
  "fst ` set (fst (makeCopy s ex)) = fst ` set (sobj_fields s) - set ex
   \<and> map_of (fst (makeCopy s ex)) k = (if k \<in> set ex then None else map_of (sobj_fields s) k)
   \<and> snd (makeCopy s ex) = s"
  by (auto simp add: makeCopy_def map_of_filter_keys)

theorem makeCopy_redacts_witness:
  "fst (makeCopy example_record [''Id'', ''ownerid''])
     = [(''OwnerId'', JString ''owner1''), (''Foo'', JString ''bar'')]
   \<and> map_of (fst (makeCopy example_record [''Id'', ''ownerid''])) ''Id'' = None
   \<and> map_of (fst (makeCopy example_record [''Id'', ''ownerid''])) ''OwnerId''
       = Some (JString ''owner1'')
   \<and> snd (makeCopy example_record [''Id'', ''ownerid'']) = example_record"
  using makeCopy_redacts [of example_record "[''Id'', ''ownerid'']" "''Id''"]
    makeCopy_redacts [of example_record "[''Id'', ''ownerid'']" "''OwnerId''"]
  by (simp add: makeCopy_def example_record_def)

subsection \<open>Escaping and reading a query\<close>

lemma of_char_lt: "(of_char c :: nat) < 256"
proof -
  have "(of_char c :: nat) mod 256 = of_char c" by simp
  then show ?thesis by (metis mod_less_divisor zero_less_numeral)
qed

lemma byte_nibbles: "(of_char c :: nat) div 16 < 16" "(of_char c :: nat) mod 16 < 16"
proof -
  have "(of_char c :: nat) < 16 * 16"
    using of_char_lt [of c] by simp
  then show "(of_char c :: nat) div 16 < 16"
    by (rule less_mult_imp_div_less)
  show "(of_char c :: nat) mod 16 < 16"
    by simp
qed

lemma nibble_cases: "d < 16 \<Longrightarrow> d \<in> {0, 1, 2, 3, 4, 5, 6, 7, 8, 9, 10, 11, 12, 13, 14, 15::nat}"
  by simp arith

lemma upperhex_nth:
  "upperhex ! 0 = CHR ''0''" "upperhex ! Suc 0 = CHR ''1''" "upperhex ! 2 = CHR ''2''"
  "upperhex ! 3 = CHR ''3''" "upperhex ! 4 = CHR ''4''" "upperhex ! 5 = CHR ''5''"
  "upperhex ! 6 = CHR ''6''" "upperhex ! 7 = CHR ''7''" "upperhex ! 8 = CHR ''8''"
  "upperhex ! 9 = CHR ''9''" "upperhex ! 10 = CHR ''A''" "upperhex ! 11 = CHR ''B''"
  "upperhex ! 12 = CHR ''C''" "upperhex ! 13 = CHR ''D''" "upperhex ! 14 = CHR ''E''"
  "upperhex ! 15 = CHR ''F''"
  by (simp_all add: upperhex_def)

lemma hex_digit: "d < 16 \<Longrightarrow> ishex (upperhex ! d) \<and> unhex (upperhex ! d) = d \<and> upperhex ! d \<in> set upperhex"
proof -
  assume "d < 16"
  then have "d \<in> {0, 1, 2, 3, 4, 5, 6, 7, 8, 9, 10, 11, 12, 13, 14, 15::nat}"
    by (rule nibble_cases)
  moreover have "set upperhex = set ''0123456789ABCDEF''" by (simp add: upperhex_def)
  ultimately show ?thesis
    by (elim insertE emptyE) (simp_all add: upperhex_nth ishex_def unhex_def)
qed

lemma shouldEscape_special:
  "shouldEscape (CHR ''%'')" "shouldEscape (CHR ''#'')" "shouldEscape (CHR '';'')"
  "\<not> shouldEscape (CHR ''+'')" "\<not> shouldEscape (CHR ''&'')" "shouldEscape (CHR '' '')"
  by (simp_all add: shouldEscape_def)

lemma QueryUnescape_escape_byte:
  assumes "c \<noteq> CHR ''+''"
  shows "QueryUnescape (escape_byte c @ rest) = map_option ((#) c) (QueryUnescape rest)"
proof (cases "shouldEscape c")
  case True
  let ?n = "of_char c :: nat"
  have hi: "?n div 16 < 16" and lo: "?n mod 16 < 16"
    by (rule byte_nibbles)+
  have "char_of (unhex (upperhex ! (?n div 16)) * 16 + unhex (upperhex ! (?n mod 16))) = c"
    using hex_digit [OF hi] hex_digit [OF lo] by simp
  then show ?thesis
    using True hex_digit [OF hi] hex_digit [OF lo] by (simp add: escape_byte_def)
next
  case False
  then have "c \<noteq> CHR ''%''"
    using shouldEscape_special(1) by auto
  with False assms show ?thesis
    by (simp add: escape_byte_def)
qed

lemma QueryUnescape_PathEscape:
  "CHR ''+'' \<notin> set q \<Longrightarrow> QueryUnescape (PathEscape q) = Some q"
proof (induction q)
  case Nil
  then show ?case by (simp add: PathEscape_def)
next
  case (Cons c q)
  then have "QueryUnescape (PathEscape q) = Some q" and "c \<noteq> CHR ''+''"
    by auto
  then show ?case
    using QueryUnescape_escape_byte [of c "PathEscape q"] by (simp add: PathEscape_def)
qed

lemma escape_byte_chars:
  "x \<in> set (escape_byte c) \<Longrightarrow> (x = c \<and> \<not> shouldEscape c) \<or> x \<in> set ''%0123456789ABCDEF''"
proof -
  assume x: "x \<in> set (escape_byte c)"
  let ?n = "of_char c :: nat"
  have hi: "?n div 16 < 16" and lo: "?n mod 16 < 16"
    by (rule byte_nibbles)+
  have "upperhex ! (?n div 16) \<in> set upperhex" "upperhex ! (?n mod 16) \<in> set upperhex"
    using hex_digit [OF hi] hex_digit [OF lo] by simp_all
  then show ?thesis
    using x by (auto simp add: escape_byte_def upperhex_def split: if_splits)
qed

lemma PathEscape_chars:
  "x \<in> set (PathEscape q) \<Longrightarrow> (x \<in> set q \<and> \<not> shouldEscape x) \<or> x \<in> set ''%0123456789ABCDEF''"
  using escape_byte_chars by (fastforce simp add: PathEscape_def)

lemma PathEscape_free:
  "CHR ''#'' \<notin> set (PathEscape q)" "CHR '';'' \<notin> set (PathEscape q)"
  "CHR ''&'' \<notin> set q \<Longrightarrow> CHR ''&'' \<notin> set (PathEscape q)"
  using PathEscape_chars [of "CHR ''#''" q] PathEscape_chars [of "CHR '';''" q]
    PathEscape_chars [of "CHR ''&''" q] shouldEscape_special
  by auto

lemma cut_before_absent: "sep \<notin> set s \<Longrightarrow> cut_before sep s = s"
  by (induction s) (auto simp add: cut_before_def)

lemma cut_after_absent: "sep \<notin> set s \<Longrightarrow> cut_after sep s = []"
  by (induction s) (auto simp add: cut_after_def)

lemma cut_before_first: "sep \<notin> set pre \<Longrightarrow> cut_before sep (pre @ sep # rest) = pre"
  by (induction pre) (auto simp add: cut_before_def)

lemma cut_after_first: "sep \<notin> set pre \<Longrightarrow> cut_after sep (pre @ sep # rest) = rest"
  by (induction pre) (auto simp add: cut_after_def)

lemma split_pieces_absent: "sep \<notin> set s \<Longrightarrow> split_pieces sep s = [s]"
  by (induction s) auto

lemma cut_before_subset: "set (cut_before sep s) \<subseteq> set s"
  by (auto simp add: cut_before_def dest: set_takeWhileD)

lemma RawQuery_no_question: "CHR ''?'' \<notin> set url \<Longrightarrow> RawQuery url = []"
proof -
  assume a: "CHR ''?'' \<notin> set url"
  with cut_before_subset [of "CHR ''#''" url]
  have "CHR ''?'' \<notin> set (cut_before (CHR ''#'') url)" by auto
  then show ?thesis unfolding RawQuery_def by (rule cut_after_absent)
qed

lemma parseQuery_Nil: "parseQuery [] = []"
  by (simp add: parseQuery_def parse_piece_def)

lemma RawQuery_query:
  assumes "CHR ''?'' \<notin> set pre" and "CHR ''#'' \<notin> set pre" and "CHR ''#'' \<notin> set rest"
  shows "RawQuery (pre @ CHR ''?'' # rest) = rest"
proof -
  have "CHR ''#'' \<notin> set (pre @ CHR ''?'' # rest)"
    using assms(2,3) by simp
  then have "cut_before (CHR ''#'') (pre @ CHR ''?'' # rest) = pre @ CHR ''?'' # rest"
    by (rule cut_before_absent)
  then show ?thesis
    using assms(1) by (simp add: RawQuery_def cut_after_first)
qed

lemma parseQuery_q:
  assumes "CHR ''&'' \<notin> set v" and "CHR '';'' \<notin> set v" and "QueryUnescape v = Some x"
  shows "parseQuery (''q='' @ v) = [(''q'', x)]"
proof -
  have "CHR ''&'' \<notin> set (''q='' @ v)"
    using assms(1) by simp
  then have sp: "split_pieces (CHR ''&'') (''q='' @ v) = [''q='' @ v]"
    by (rule split_pieces_absent)
  have k: "cut_before (CHR ''='') (''q='' @ v) = ''q''"
    using cut_before_first [of "CHR ''=''" "''q''" v] by simp
  have vv: "cut_after (CHR ''='') (''q='' @ v) = v"
    using cut_after_first [of "CHR ''=''" "''q''" v] by simp
  have semi: "CHR '';'' \<notin> set (''q='' @ v)"
    using assms(2) by simp
  have uq: "QueryUnescape ''q'' = Some ''q''"
    by simp
  have "parse_piece (''q='' @ v) = [(''q'', x)]"
    unfolding parse_piece_def using semi k vv uq assms(3) by simp
  then show ?thesis
    unfolding parseQuery_def using sp by simp
qed

lemma PathEscape_plus: "PathEscape ''a+b'' = ''a+b''"
  by (simp add: PathEscape_def escape_byte_def shouldEscape_def)

lemma PathEscape_ampersand: "PathEscape ''AT&T'' = ''AT&T''"
  by (simp add: PathEscape_def escape_byte_def shouldEscape_def)

lemma example_ampersand_query:
  "Values_Get (parseQuery (RawQuery ''https://example.com/services/data/v43.0/query?q=AT&T'')) ''q''
     = ''AT''"
proof -
  have "RawQuery ''https://example.com/services/data/v43.0/query?q=AT&T'' = ''q=AT&T''"
    by (simp add: RawQuery_def cut_before_def cut_after_def)
  moreover have "parseQuery ''q=AT&T'' = [(''q'', ''AT''), (''T'', [])]"
    by (simp add: parseQuery_def parse_piece_def cut_before_def cut_after_def)
  ultimately show ?thesis
    by (simp add: Values_Get_def)
qed

lemma example_plus_query:
  "Values_Get (parseQuery (RawQuery ''https://example.com/services/data/v43.0/query?q=a+b'')) ''q''
     = ''a b''"
proof -
  have "RawQuery ''https://example.com/services/data/v43.0/query?q=a+b'' = ''q=a+b''"
    by (simp add: RawQuery_def cut_before_def cut_after_def)
  moreover have "parseQuery ''q=a+b'' = [(''q'', ''a b'')]"
    by (simp add: parseQuery_def parse_piece_def cut_before_def cut_after_def)
  ultimately show ?thesis
    by (simp add: Values_Get_def)
qed

lemma PathEscape_example:
  "PathEscape ''SELECT Id FROM Account'' = ''SELECT%20Id%20FROM%20Account''"
  by (simp add: PathEscape_def escape_byte_def shouldEscape_def upperhex_def)

subsection \<open>Queries\<close>

text \<open>
  What \<open>Query\<close> sends when the request URL is accepted: one GET with no body.  With a
  non-empty continuation token the URL is the base URL followed by the token, the query
  string playing no part, and it has no \<open>q\<close> parameter when neither the base URL nor the
  token holds a \<open>?\<close>.  With an empty token the URL is
  \<open>{base}/services/data/{api-version}/query?q=\<close> followed by the path-escaped query; its \<open>q\<close>
  parameter decodes to the query string when the query holds no \<open>+\<close> and no \<open>&\<close> (and the
  base URL and the version hold no \<open>?\<close> and no \<open>#\<close>).
\<close>

lemma Query_sends:
  assumes "url = baseURL h @ (if n \<noteq> [] then n
                 else ''/services/data/'' @ apiVersion h @ ''/query?q='' @ PathEscape q)"
    and "NewRequest_err env ''GET'' url = None"
  shows "sent (fst (snd (Query env h q n w)))
           = sent w @ [\<lparr>Method = ''GET'', URL = url, ReqBody = None,
                        ReqHeader = [''Content-Type'' \<mapsto> [''application/json'']]\<rparr>]
       \<and> (n \<noteq> [] \<longrightarrow> url = baseURL h @ n)
       \<and> (n \<noteq> [] \<and> CHR ''?'' \<notin> set (baseURL h) \<and> CHR ''?'' \<notin> set n \<longrightarrow>
            \<not> Values_Has (parseQuery (RawQuery url)) ''q'')
       \<and> (n = [] \<longrightarrow>
            url = baseURL h @ ''/services/data/'' @ apiVersion h @ ''/query?q='' @ PathEscape q)
       \<and> (n = [] \<and> CHR ''?'' \<notin> set (baseURL h) \<and> CHR ''#'' \<notin> set (baseURL h)
             \<and> CHR ''?'' \<notin> set (apiVersion h) \<and> CHR ''#'' \<notin> set (apiVersion h)
             \<and> CHR ''+'' \<notin> set q \<and> CHR ''&'' \<notin> set q \<longrightarrow>
            Values_Get (parseQuery (RawQuery url)) ''q'' = q)"
proof -
  have u: "baseURL h @ (if length n > 0 then n
             else ''/services/data/'' @ apiVersion h @ ''/query?q='' @ PathEscape q) = url"
    using assms(1) by simp
  have sent: "sent (fst (snd (Query env h q n w)))
           = sent w @ [\<lparr>Method = ''GET'', URL = url, ReqBody = None,
                        ReqHeader = [''Content-Type'' \<mapsto> [''application/json'']]\<rparr>]"
    unfolding Query_world u using assms(2)
    by (simp add: sent_def request_events request_headers_None)
  have no_q: "\<not> Values_Has (parseQuery (RawQuery url)) ''q''"
    if "n \<noteq> []" and "CHR ''?'' \<notin> set (baseURL h)" and "CHR ''?'' \<notin> set n"
  proof -
    have "CHR ''?'' \<notin> set url" using that assms(1) by simp
    then have "RawQuery url = []" by (rule RawQuery_no_question)
    then show ?thesis by (simp add: parseQuery_Nil Values_Has_def)
  qed
  have q: "Values_Get (parseQuery (RawQuery url)) ''q'' = q"
    if "n = []" and "CHR ''?'' \<notin> set (baseURL h)" and "CHR ''#'' \<notin> set (baseURL h)"
      and "CHR ''?'' \<notin> set (apiVersion h)" and "CHR ''#'' \<notin> set (apiVersion h)"
      and "CHR ''+'' \<notin> set q" and "CHR ''&'' \<notin> set q"
  proof -
    let ?pre = "baseURL h @ ''/services/data/'' @ apiVersion h @ ''/query''"
    let ?rest = "''q='' @ PathEscape q"
    have url: "url = ?pre @ CHR ''?'' # ?rest"
      using that(1) assms(1) by simp
    have p1: "CHR ''?'' \<notin> set ?pre" and p2: "CHR ''#'' \<notin> set ?pre"
      using that(2-5) by simp_all
    have p3: "CHR ''#'' \<notin> set ?rest"
      using PathEscape_free(1) [of q] by simp
    have raw: "RawQuery (?pre @ CHR ''?'' # ?rest) = ?rest"
      using p1 p2 p3 by (rule RawQuery_query)
    have "parseQuery ?rest = [(''q'', q)]"
      using PathEscape_free(3) [OF that(7)] PathEscape_free(2) [of q]
        QueryUnescape_PathEscape [OF that(6)]
      by (rule parseQuery_q)
    then show ?thesis
      unfolding url raw by (simp add: Values_Get_def)
  qed
  show ?thesis
    using sent no_q q assms(1) by simp
qed

text \<open>
  Claim C3.  The part of the claim about the query string fails on the code: \<open>Query\<close>
  escapes the query with \<open>url.PathEscape\<close>, the escaping of a path segment, which leaves \<open>+\<close>
  and \<open>&\<close> as they are, while the receiving side reads \<open>+\<close> in a query as a space and \<open>&\<close>
  as the end of the parameter.  With an empty continuation token, the query \<open>a+b\<close> is sent
  as \<open>q=a+b\<close> and read back as \<open>a b\<close>, and the query \<open>AT&T\<close> is sent as \<open>q=AT&T\<close> and read
  back as \<open>AT\<close>: the \<open>q\<close> parameter does not decode to the original query string, which the
  repository's own test of \<open>Query\<close> asserts for its query.
\<close>

theorem Query_escape_loses_plus_and_ampersand:
  "sent_urls (fst (snd (Query example_env (client_answering 200 []) ''a+b'' [] world0)))
     = [''https://example.com/services/data/v43.0/query?q=a+b'']
   \<and> Values_Get (parseQuery (RawQuery
         ''https://example.com/services/data/v43.0/query?q=a+b'')) ''q'' = ''a b''
   \<and> sent_urls (fst (snd (Query example_env (client_answering 200 []) ''AT&T'' [] world0)))
     = [''https://example.com/services/data/v43.0/query?q=AT&T'']
   \<and> Values_Get (parseQuery (RawQuery
         ''https://example.com/services/data/v43.0/query?q=AT&T'')) ''q'' = ''AT''"
  by (simp add: Query_world request_sent_urls client_answering_fields example_env_def
      world0_observed PathEscape_plus PathEscape_ampersand example_plus_query
      example_ampersand_query)

end
